theory Spec2Isabelle
  imports Complex_Main "HOL-Library.Multiset"
begin

section \<open>Data model (types/index.ts)\<close>

text \<open>
  The TypeScript string-literal unions become datatypes, the interfaces become records.
  A JavaScript \<open>number\<close> that holds a pid, a port or a count is an \<open>int\<close>; the CPU
  percentage is a \<open>real\<close>. \<open>T | null\<close> and an optional field are \<open>T option\<close>.
  Field names that occur in two interfaces carry the interface as a prefix in the later one
  (\<open>ContainerInfo.id\<close> is \<open>container_id\<close>, and so on); \<open>ProcessNode.id\<close> is \<open>node_id\<close>.
\<close>

datatype Protocol = tcp | udp

datatype SocketState =
    LISTENING | ESTABLISHED | SYN_SENT | SYN_RECEIVED | FIN_WAIT_1 | FIN_WAIT_2
  | CLOSE_WAIT | CLOSING | LAST_ACK | TIME_WAIT | CLOSED | UNKNOWN

datatype ContainerRuntime = docker | podman | containerd | unknown

datatype ContainerAction = stop | kill | remove | restart

record PortEntry =
  protocol :: Protocol
  localAddress :: string
  localPort :: int
  remoteAddress :: "string option"
  remotePort :: "int option"
  state :: SocketState

record ContainerPort =
  hostPort :: int
  containerPort :: int
  cp_protocol :: Protocol
  hostIp :: "string option"

record ContainerInfo =
  container_id :: string
  container_name :: string
  image :: string
  status :: string
  container_state :: string
  runtime :: ContainerRuntime
  container_ports :: "ContainerPort list"

record ProcessNode =
  node_id :: string
  pid :: int
  name :: string
  exePath :: "string option"
  commandLine :: "string option"
  user :: string
  memoryUsage :: int
  cpuUsage :: real
  startTime :: "string option"
  ports :: "PortEntry list"
  isDockerProxy :: bool
  container :: "ContainerInfo option"
  isProtected :: bool

text \<open>\<open>new Date(s)\<close> is kept as the string it was built from.\<close>

datatype Date = Date string

record AppState =
  as_processes :: "ProcessNode list"
  as_totalConnections :: int
  as_listeningPorts :: int
  as_dockerAvailable :: bool
  as_lastUpdated :: string

record KillResult =
  success :: bool
  message :: string
  requiredElevation :: bool

text \<open>
  What a rejected \<open>invoke\<close> is caught as (\<open>err as AppError\<close>). The cast checks nothing at
  run time, so \<open>message\<close> may be missing: it is an option here.
\<close>

record AppError =
  code :: string
  err_message :: "string option"
  details :: "string option"

record FilterOptions =
  showAllConnections :: bool
  searchQuery :: string
  selectedProtocol :: "Protocol option"   \<comment> \<open>\<open>None\<close> is \<open>'all'\<close>\<close>
  selectedState :: "SocketState option"   \<comment> \<open>\<open>None\<close> is \<open>'all'\<close>\<close>

datatype SortField = by_pid | by_name | by_port | by_memory | by_cpu | by_user

datatype SortDirection = asc | desc

record SortOptions =
  field :: SortField
  direction :: SortDirection

text \<open>
  \<open>HistoryEntry\<close> is imported from the history panel; its fields are the ones
  \<open>addHistoryEntry\<close> is called with, plus \<open>id\<close> and \<open>timestamp\<close>.
\<close>

datatype HistoryAction = act_kill | act_force_kill | act_container_stop | act_container_kill

record HistoryInput =
  action :: HistoryAction
  processName :: string
  entry_pid :: int
  entry_port :: "int option"
  entry_success :: bool
  entry_message :: string

record HistoryEntry = HistoryInput +
  entry_id :: string
  timestamp :: Date

section \<open>The store (store/index.ts)\<close>

record StoreState =
  processes :: "ProcessNode list"
  totalConnections :: int
  listeningPorts :: int
  dockerAvailable :: bool
  lastUpdated :: "Date option"
  isLoading :: bool
  error :: "string option"
  selectedPid :: "int option"
  selectedPids :: "int set"
  filterOptions :: FilterOptions
  sortOptions :: SortOptions
  favoritePorts :: "int list"
  history :: "HistoryEntry list"
  pollingInterval :: int
  isPolling :: bool
  showDetailsPanel :: bool

text \<open>
  Everything outside the store that the actions touch: the requests sent to the backend
  with \<open>invoke\<close> (in order), the callbacks armed with \<open>setTimeout\<close> and their delays, and
  \<open>localStorage\<close> as a list of key/value pairs.
\<close>

datatype RemoteRequest =
    get_processes bool
  | find_port int
  | kill_process int bool
  | container_action string ContainerAction

datatype Callback =
    Poll int          \<comment> \<open>the \<open>poll\<close> closure of \<open>startPolling\<close>, with the interval it captured\<close>
  | FetchProcesses    \<comment> \<open>\<open>() => get().fetchProcesses()\<close>\<close>

record World =
  store :: StoreState
  invoked :: "RemoteRequest list"
  timers :: "(Callback \<times> int) list"
  localStorage :: "(string \<times> string) list"

text \<open>An awaited \<open>invoke\<close> either resolves with a value or rejects with an error.\<close>

datatype 'a Response = Resolve 'a | Reject AppError

definition invoke :: "RemoteRequest \<Rightarrow> World \<Rightarrow> World" where
  "invoke req w = w\<lparr>invoked := invoked w @ [req]\<rparr>"

definition setTimeout :: "Callback \<Rightarrow> int \<Rightarrow> World \<Rightarrow> World" where
  "setTimeout cb ms w = w\<lparr>timers := timers w @ [(cb, ms)]\<rparr>"

definition getItem :: "string \<Rightarrow> (string \<times> string) list \<Rightarrow> string option" where
  "getItem k kvs = map_of kvs k"

definition setItem :: "string \<Rightarrow> string \<Rightarrow> (string \<times> string) list \<Rightarrow> (string \<times> string) list" where
  "setItem k v kvs = (k, v) # filter (\<lambda>kv. fst kv \<noteq> k) kvs"

subsection \<open>Numbers as text\<close>

text \<open>\<open>Number.prototype.toString\<close> on an integer, and \<open>JSON.stringify\<close> on a \<open>number[]\<close>
  of integers.\<close>

fun digits :: "nat \<Rightarrow> string" where
  "digits n = (if n < 10 then [''0123456789'' ! n] else digits (n div 10) @ [''0123456789'' ! (n mod 10)])"

declare digits.simps [simp del]

definition toString :: "int \<Rightarrow> string" where
  "toString i = (if i < 0 then CHR ''-'' # digits (nat (- i)) else digits (nat i))"

fun join :: "string \<Rightarrow> string list \<Rightarrow> string" where
  "join sep [] = []"
| "join sep [x] = x"
| "join sep (x # y # ys) = x @ sep @ join sep (y # ys)"

definition JSON_stringify :: "int list \<Rightarrow> string" where
  "JSON_stringify xs = ''['' @ join '','' (map toString xs) @ '']''"

subsection \<open>Favorites\<close>

definition addFavoritePort :: "int \<Rightarrow> World \<Rightarrow> World" where
  "addFavoritePort port w =
     (let newFavorites = favoritePorts (store w) @ [port] in
      w\<lparr>localStorage := setItem ''favoritePorts'' (JSON_stringify newFavorites) (localStorage w),
        store := (store w)\<lparr>favoritePorts := newFavorites\<rparr>\<rparr>)"

definition removeFavoritePort :: "int \<Rightarrow> World \<Rightarrow> World" where
  "removeFavoritePort port w =
     (let newFavorites = filter (\<lambda>p. p \<noteq> port) (favoritePorts (store w)) in
      w\<lparr>localStorage := setItem ''favoritePorts'' (JSON_stringify newFavorites) (localStorage w),
        store := (store w)\<lparr>favoritePorts := newFavorites\<rparr>\<rparr>)"

definition toggleFavoritePort :: "int \<Rightarrow> World \<Rightarrow> World" where
  "toggleFavoritePort port w =
     (if port \<in> set (favoritePorts (store w))
      then removeFavoritePort port w
      else addFavoritePort port w)"

subsection \<open>History\<close>

text \<open>
  The id (\<open>Date.now()\<close> and \<open>Math.random()\<close>) and the timestamp (\<open>new Date()\<close>) come from
  the runtime: they are arguments.
\<close>

definition mkEntry :: "HistoryInput \<Rightarrow> string \<Rightarrow> Date \<Rightarrow> HistoryEntry" where
  "mkEntry e i t = HistoryInput.extend e (HistoryEntry.fields i t)"

definition addHistoryEntry :: "HistoryInput \<Rightarrow> string \<Rightarrow> Date \<Rightarrow> StoreState \<Rightarrow> StoreState" where
  "addHistoryEntry entry i t st = st\<lparr>history := take 100 (mkEntry entry i t # history st)\<rparr>"

definition clearHistory :: "StoreState \<Rightarrow> StoreState" where
  "clearHistory st = st\<lparr>history := []\<rparr>"

fun addHistoryEntries :: "(HistoryInput \<times> string \<times> Date) list \<Rightarrow> StoreState \<Rightarrow> StoreState" where
  "addHistoryEntries [] st = st"
| "addHistoryEntries ((e, i, t) # es) st = addHistoryEntries es (addHistoryEntry e i t st)"

subsection \<open>Snapshot fetch and polling\<close>

text \<open>\<open>a || d\<close> on a string that may be undefined: \<open>d\<close> when \<open>a\<close> is undefined or empty.\<close>

definition or_default :: "string option \<Rightarrow> string \<Rightarrow> string" where
  "or_default a d = (case a of None \<Rightarrow> d | Some s \<Rightarrow> if s = [] then d else s)"

text \<open>
  An \<open>async\<close> action runs up to its \<open>await invoke(...)\<close>, and resumes when the backend
  answers. Each action is given in these two parts (\<open>_begin\<close>, \<open>_end\<close>), so that other
  events can be placed between them, and as their composition when nothing happens in
  between. The answer of the backend is an argument.
\<close>

definition fetchProcesses_begin :: "World \<Rightarrow> World" where
  "fetchProcesses_begin w =
     (let w1 = w\<lparr>store := (store w)\<lparr>isLoading := True, error := None\<rparr>\<rparr>
      in invoke (get_processes (showAllConnections (filterOptions (store w1)))) w1)"

definition fetchProcesses_end :: "AppState Response \<Rightarrow> World \<Rightarrow> World" where
  "fetchProcesses_end r w =
     (case r of
        Resolve result \<Rightarrow>
          w\<lparr>store := (store w)\<lparr>processes := as_processes result,
                                totalConnections := as_totalConnections result,
                                listeningPorts := as_listeningPorts result,
                                dockerAvailable := as_dockerAvailable result,
                                lastUpdated := Some (Date (as_lastUpdated result)),
                                isLoading := False\<rparr>\<rparr>
      | Reject err \<Rightarrow>
          w\<lparr>store := (store w)\<lparr>error := Some (or_default (err_message err) ''Failed to fetch processes''),
                                isLoading := False\<rparr>\<rparr>)"

definition fetchProcesses :: "AppState Response \<Rightarrow> World \<Rightarrow> World" where
  "fetchProcesses r w = fetchProcesses_end r (fetchProcesses_begin w)"

text \<open>
  The closure \<open>poll\<close> of \<open>startPolling\<close>. Its \<open>pollingInterval\<close> is the constant that
  \<open>startPolling\<close> read from the store when it was called: the argument \<open>captured\<close>.
\<close>

definition poll_begin :: "World \<Rightarrow> World" where
  "poll_begin w = (if isPolling (store w) then fetchProcesses_begin w else w)"

definition poll_end :: "int \<Rightarrow> AppState Response \<Rightarrow> World \<Rightarrow> World" where
  "poll_end captured r w = setTimeout (Poll captured) captured (fetchProcesses_end r w)"

definition poll :: "int \<Rightarrow> AppState Response \<Rightarrow> World \<Rightarrow> World" where
  "poll captured r w =
     (if isPolling (store w)
      then setTimeout (Poll captured) captured (fetchProcesses r w)
      else w)"

definition startPolling :: "AppState Response \<Rightarrow> World \<Rightarrow> World" where
  "startPolling r w =
     (let captured = pollingInterval (store w) in
      if isPolling (store w) then w
      else poll captured r (w\<lparr>store := (store w)\<lparr>isPolling := True\<rparr>\<rparr>))"

definition stopPolling :: "World \<Rightarrow> World" where
  "stopPolling w = w\<lparr>store := (store w)\<lparr>isPolling := False\<rparr>\<rparr>"

definition setPollingInterval :: "int \<Rightarrow> World \<Rightarrow> World" where
  "setPollingInterval ms w = w\<lparr>store := (store w)\<lparr>pollingInterval := ms\<rparr>\<rparr>"

text \<open>
  A timer that comes due: it leaves the list and its callback runs, with the backend's
  answer to the fetch the callback starts.
\<close>

definition runCallback :: "Callback \<Rightarrow> AppState Response \<Rightarrow> World \<Rightarrow> World" where
  "runCallback cb r w = (case cb of Poll captured \<Rightarrow> poll captured r w | FetchProcesses \<Rightarrow> fetchProcesses r w)"

definition fireTimer :: "AppState Response \<Rightarrow> World \<Rightarrow> World" where
  "fireTimer r w =
     (case timers w of
        [] \<Rightarrow> w
      | (cb, ms) # rest \<Rightarrow> runCallback cb r (w\<lparr>timers := rest\<rparr>))"

subsection \<open>Process termination and container actions\<close>

text \<open>\<open>process?.ports[0]?.localPort\<close>\<close>

definition firstLocalPort :: "ProcessNode option \<Rightarrow> int option" where
  "firstLocalPort process =
     (case process of
        None \<Rightarrow> None
      | Some p \<Rightarrow> (case ports p of [] \<Rightarrow> None | e # es \<Rightarrow> Some (localPort e)))"

definition killEntry :: "ProcessNode option \<Rightarrow> int \<Rightarrow> bool \<Rightarrow> bool \<Rightarrow> string \<Rightarrow> HistoryInput" where
  "killEntry process pid' force succ msg =
     \<lparr>action = (if force then act_force_kill else act_kill),
      processName = or_default (map_option name process) ''Unknown'',
      entry_pid = pid',
      entry_port = firstLocalPort process,
      entry_success = succ,
      entry_message = msg\<rparr>"

definition killProcess_begin :: "int \<Rightarrow> bool \<Rightarrow> World \<Rightarrow> ProcessNode option \<times> World" where
  "killProcess_begin pid' force w =
     (let process = List.find (\<lambda>p. pid p = pid') (processes (store w))
      in (process, invoke (kill_process pid' force) w))"

definition killProcess_end ::
  "ProcessNode option \<Rightarrow> int \<Rightarrow> bool \<Rightarrow> KillResult Response \<Rightarrow> string \<Rightarrow> Date \<Rightarrow> World
    \<Rightarrow> KillResult \<times> World" where
  "killProcess_end process pid' force r i t w =
     (case r of
        Resolve result \<Rightarrow>
          (let w1 = w\<lparr>store := addHistoryEntry
                        (killEntry process pid' force (success result) (message result)) i t (store w)\<rparr>;
               w2 = (if success result then setTimeout FetchProcesses 500 w1 else w1)
           in (result, w2))
      | Reject err \<Rightarrow>
          (let msg = or_default (err_message err) ''Failed to kill process'';
               w1 = w\<lparr>store := addHistoryEntry (killEntry process pid' force False msg) i t (store w)\<rparr>
           in (\<lparr>success = False, message = msg, requiredElevation = False\<rparr>, w1)))"

definition killProcess ::
  "int \<Rightarrow> bool \<Rightarrow> KillResult Response \<Rightarrow> string \<Rightarrow> Date \<Rightarrow> World \<Rightarrow> KillResult \<times> World" where
  "killProcess pid' force r i t w =
     (case killProcess_begin pid' force w of
        (process, w1) \<Rightarrow> killProcess_end process pid' force r i t w1)"

text \<open>\<open>p.container?.id === containerId\<close>\<close>

definition hasContainerId :: "string \<Rightarrow> ProcessNode \<Rightarrow> bool" where
  "hasContainerId containerId p =
     (case container p of None \<Rightarrow> False | Some c \<Rightarrow> container_id c = containerId)"

definition containerEntry ::
  "ProcessNode option \<Rightarrow> string \<Rightarrow> ContainerAction \<Rightarrow> bool \<Rightarrow> string \<Rightarrow> HistoryInput" where
  "containerEntry process containerId act succ msg =
     \<lparr>action = (if act = stop then act_container_stop else act_container_kill),
      processName =
        or_default (case process of None \<Rightarrow> None
                    | Some p \<Rightarrow> map_option container_name (container p))
          (take 12 containerId),
      entry_pid = (case process of None \<Rightarrow> 0 | Some p \<Rightarrow> pid p),
      entry_port = firstLocalPort process,
      entry_success = succ,
      entry_message = msg\<rparr>"

definition containerAction_begin :: "string \<Rightarrow> ContainerAction \<Rightarrow> World \<Rightarrow> ProcessNode option \<times> World" where
  "containerAction_begin containerId act w =
     (let process = List.find (hasContainerId containerId) (processes (store w))
      in (process, invoke (container_action containerId act) w))"

definition containerAction_end ::
  "ProcessNode option \<Rightarrow> string \<Rightarrow> ContainerAction \<Rightarrow> KillResult Response \<Rightarrow> string \<Rightarrow> Date \<Rightarrow> World
    \<Rightarrow> KillResult \<times> World" where
  "containerAction_end process containerId act r i t w =
     (case r of
        Resolve result \<Rightarrow>
          (let w1 = w\<lparr>store := addHistoryEntry
                        (containerEntry process containerId act (success result) (message result))
                        i t (store w)\<rparr>;
               w2 = (if success result then setTimeout FetchProcesses 1000 w1 else w1)
           in (result, w2))
      | Reject err \<Rightarrow>
          (let msg = or_default (err_message err) ''Failed to execute container action'';
               w1 = w\<lparr>store := addHistoryEntry
                        (containerEntry process containerId act False msg) i t (store w)\<rparr>
           in (\<lparr>success = False, message = msg, requiredElevation = False\<rparr>, w1)))"

definition containerAction ::
  "string \<Rightarrow> ContainerAction \<Rightarrow> KillResult Response \<Rightarrow> string \<Rightarrow> Date \<Rightarrow> World
    \<Rightarrow> KillResult \<times> World" where
  "containerAction containerId act r i t w =
     (case containerAction_begin containerId act w of
        (process, w1) \<Rightarrow> containerAction_end process containerId act r i t w1)"

subsection \<open>Ways to terminate a process from the interface\<close>

text \<open>
  The context menu of a row (ContextMenu.tsx): its items with their \<open>disabled\<close> flags.
  Only this data is modelled, not what a click on an item does. The clipboard is not part
  of the state, so the copy actions are named only.
\<close>

datatype MenuAction =
    Copy_PID | Copy_Port | Copy_CommandLine | Copy_KillCommand
  | OnKill bool | OnToggleFavorite | Copy_JSON

record MenuItem =
  label :: string
  item_action :: MenuAction
  disabled :: bool

record MenuGroup =
  group :: string
  items :: "MenuItem list"

definition menuItems :: "ProcessNode \<Rightarrow> bool \<Rightarrow> MenuGroup list" where
  "menuItems process isFavorite =
     [\<lparr>group = ''copy'', items =
         [\<lparr>label = ''Copy PID'', item_action = Copy_PID, disabled = False\<rparr>,
          \<lparr>label = ''Copy Port'', item_action = Copy_Port, disabled = (length (ports process) = 0)\<rparr>,
          \<lparr>label = ''Copy Command Line'', item_action = Copy_CommandLine, disabled = False\<rparr>,
          \<lparr>label = ''Copy Kill Command'', item_action = Copy_KillCommand, disabled = False\<rparr>]\<rparr>,
      \<lparr>group = ''actions'', items =
         [\<lparr>label = ''Graceful Stop (SIGTERM)'', item_action = OnKill False,
           disabled = isProtected process\<rparr>,
          \<lparr>label = ''Force Kill (SIGKILL)'', item_action = OnKill True,
           disabled = isProtected process\<rparr>]\<rparr>,
      \<lparr>group = ''favorites'', items =
         [\<lparr>label = (if isFavorite then ''Remove from Favorites'' else ''Add to Favorites''),
           item_action = OnToggleFavorite, disabled = False\<rparr>]\<rparr>,
      \<lparr>group = ''export'', items =
         [\<lparr>label = ''Copy as JSON'', item_action = Copy_JSON, disabled = False\<rparr>]\<rparr>]"

definition menuItemFor :: "ProcessNode \<Rightarrow> bool \<Rightarrow> MenuAction \<Rightarrow> MenuItem option" where
  "menuItemFor process isFavorite a =
     List.find (\<lambda>it. item_action it = a) (concat (map items (menuItems process isFavorite)))"

text \<open>The store's \<open>setSelectedPid\<close>, and the \<open>onClick\<close> of a process row:
  \<open>setSelectedPid(isSelected ? null : process.pid)\<close> with
  \<open>isSelected = (selectedPid === process.pid)\<close>.\<close>

definition setSelectedPid :: "int option \<Rightarrow> World \<Rightarrow> World" where
  "setSelectedPid p w = w\<lparr>store := (store w)\<lparr>selectedPid := p\<rparr>\<rparr>"

definition rowOnClick :: "ProcessNode \<Rightarrow> World \<Rightarrow> World" where
  "rowOnClick process w =
     (let isSelected = (selectedPid (store w) = Some (pid process))
      in setSelectedPid (if isSelected then None else Some (pid process)) w)"

text \<open>
  \<open>handleKillFromPanel\<close> and the \<open>onKillSelected\<close> handler of the application component,
  which the keyboard hook calls on Cmd/Ctrl+K. \<open>if (selectedPid)\<close> holds for a pid that
  is neither \<open>null\<close> nor 0. The alert that shows a failure message is outside the state.
\<close>

definition handleKillFromPanel ::
  "bool \<Rightarrow> KillResult Response \<Rightarrow> string \<Rightarrow> Date \<Rightarrow> World \<Rightarrow> World" where
  "handleKillFromPanel force r i t w =
     (case selectedPid (store w) of
        None \<Rightarrow> w
      | Some sel \<Rightarrow>
          if sel = 0 then w
          else (case killProcess sel force r i t w of
                  (result, w1) \<Rightarrow> if success result then setSelectedPid None w1 else w1))"

definition onKillSelected :: "KillResult Response \<Rightarrow> string \<Rightarrow> Date \<Rightarrow> World \<Rightarrow> World" where
  "onKillSelected r i t w =
     (case selectedPid (store w) of
        None \<Rightarrow> w
      | Some sel \<Rightarrow> if sel = 0 then w else handleKillFromPanel False r i t w)"

subsection \<open>Port lookup (store \<open>findPort\<close>, PortSearchDialog.tsx)\<close>

text \<open>
  \<open>findPort\<close> sends \<open>find_port\<close> and returns the backend's list, or throws an \<open>Error\<close> with
  the backend's message (\<open>Inl\<close> of the message).
\<close>

definition findPort :: "int \<Rightarrow> ProcessNode list Response \<Rightarrow> World \<Rightarrow> (string + ProcessNode list) \<times> World" where
  "findPort port r w =
     (case r of
        Resolve result \<Rightarrow> (Inr result, invoke (find_port port) w)
      | Reject err \<Rightarrow> (Inl (or_default (err_message err) ''Failed to find port''), invoke (find_port port) w))"

text \<open>
  \<open>parseInt(s, 10)\<close>: leading white space is skipped, then an optional sign, then the
  longest run of decimal digits; without a digit the result is \<open>NaN\<close> (\<open>None\<close>).
\<close>

definition isDigit :: "char \<Rightarrow> bool" where
  "isDigit c = (48 \<le> (of_char c :: nat) \<and> (of_char c :: nat) \<le> 57)"

definition digitValue :: "char \<Rightarrow> nat" where
  "digitValue c = of_char c - 48"

definition isWhiteSpace :: "char \<Rightarrow> bool" where
  "isWhiteSpace c = ((of_char c :: nat) \<in> {9, 10, 11, 12, 13, 32})"

definition parseInt :: "string \<Rightarrow> int option" where
  "parseInt s =
     (let s1 = dropWhile isWhiteSpace s;
          neg = (case s1 of [] \<Rightarrow> False | c # cs \<Rightarrow> c = CHR ''-'');
          s2 = (case s1 of [] \<Rightarrow> [] | c # cs \<Rightarrow> if c = CHR ''-'' \<or> c = CHR ''+'' then cs else s1);
          ds = takeWhile isDigit s2
      in if ds = [] then None
         else Some ((if neg then - 1 else 1) * int (foldl (\<lambda>a c. 10 * a + digitValue c) 0 ds)))"

text \<open>The dialog's own state (\<open>useState\<close>).\<close>

record PortSearchState =
  ps_port :: string
  ps_results :: "ProcessNode list"
  ps_isSearching :: bool
  ps_error :: "string option"

text \<open>The input's \<open>onChange\<close>: \<open>setPort(e.target.value.replace(/\D/g, ''))\<close>.\<close>

definition onChangePort :: "string \<Rightarrow> PortSearchState \<Rightarrow> PortSearchState" where
  "onChangePort v d = d\<lparr>ps_port := filter isDigit v\<rparr>"

definition handleSearch ::
  "ProcessNode list Response \<Rightarrow> PortSearchState \<times> World \<Rightarrow> PortSearchState \<times> World" where
  "handleSearch r dw =
     (case dw of (d, w) \<Rightarrow>
       (case parseInt (ps_port d) of
          None \<Rightarrow> (d\<lparr>ps_error := Some ''Please enter a valid port number (1-65535)''\<rparr>, w)
        | Some portNum \<Rightarrow>
            if portNum < 1 \<or> portNum > 65535
            then (d\<lparr>ps_error := Some ''Please enter a valid port number (1-65535)''\<rparr>, w)
            else
              (let d1 = d\<lparr>ps_isSearching := True, ps_error := None\<rparr> in
               case findPort portNum r w of
                 (Inr found, w') \<Rightarrow>
                   (d1\<lparr>ps_results := found,
                       ps_error := (if length found = 0
                                    then Some (''No processes found using port '' @ toString portNum)
                                    else None),
                       ps_isSearching := False\<rparr>, w')
               | (Inl msg, w') \<Rightarrow> (d1\<lparr>ps_error := Some msg, ps_isSearching := False\<rparr>, w'))))"

section \<open>View pipeline (ProcessTable.tsx)\<close>

text \<open>
  Two string operations of the JavaScript runtime depend on Unicode tables and on the
  locale: \<open>toLowerCase\<close> and \<open>localeCompare\<close>. They are parameters of the pipeline.
\<close>

record Runtime =
  toLowerCase :: "string \<Rightarrow> string"
  localeCompare :: "string \<Rightarrow> string \<Rightarrow> int"

text \<open>\<open>s.includes(q)\<close>: \<open>q\<close> occurs in \<open>s\<close> as a contiguous substring.\<close>

fun startsWith :: "string \<Rightarrow> string \<Rightarrow> bool" where
  "startsWith s [] = True"
| "startsWith [] (q # qs) = False"
| "startsWith (c # cs) (q # qs) = (c = q \<and> startsWith cs qs)"

fun includesStr :: "string \<Rightarrow> string \<Rightarrow> bool" where
  "includesStr [] q = (q = [])"
| "includesStr (c # cs) q = (startsWith (c # cs) q \<or> includesStr cs q)"

definition matchesQuery :: "Runtime \<Rightarrow> string \<Rightarrow> ProcessNode \<Rightarrow> bool" where
  "matchesQuery rt query p =
     (includesStr (toLowerCase rt (name p)) query
      \<or> includesStr (toString (pid p)) query
      \<or> includesStr (toLowerCase rt (user p)) query
      \<or> (case commandLine p of None \<Rightarrow> False | Some c \<Rightarrow> includesStr (toLowerCase rt c) query)
      \<or> (case container p of None \<Rightarrow> False
          | Some c \<Rightarrow> includesStr (toLowerCase rt (container_name c)) query)
      \<or> list_ex (\<lambda>port. includesStr (toString (localPort port)) query) (ports p))"

definition filteredProcesses :: "Runtime \<Rightarrow> ProcessNode list \<Rightarrow> FilterOptions \<Rightarrow> ProcessNode list" where
  "filteredProcesses rt ps fo =
     (let result0 = ps;
          result1 = (if searchQuery fo \<noteq> []
                     then filter (matchesQuery rt (toLowerCase rt (searchQuery fo))) result0
                     else result0);
          result2 = (case selectedProtocol fo of
                       None \<Rightarrow> result1
                     | Some pr \<Rightarrow> filter (\<lambda>p. list_ex (\<lambda>port. protocol port = pr) (ports p)) result1);
          result3 = (case selectedState fo of
                       None \<Rightarrow> result2
                     | Some st \<Rightarrow> filter (\<lambda>p. list_ex (\<lambda>port. state port = st) (ports p)) result2)
      in result3)"

definition hasFavoritePort :: "int list \<Rightarrow> ProcessNode \<Rightarrow> bool" where
  "hasFavoritePort favs p = list_ex (\<lambda>port. localPort port \<in> set favs) (ports p)"

text \<open>\<open>a.ports[0]?.localPort ?? 0\<close>\<close>

definition firstPortOr0 :: "ProcessNode \<Rightarrow> int" where
  "firstPortOr0 p = (case ports p of [] \<Rightarrow> 0 | e # es \<Rightarrow> localPort e)"

text \<open>The comparator handed to \<open>sort\<close>. Its result is a JavaScript number: a \<open>real\<close>.\<close>

definition compareProcesses ::
  "Runtime \<Rightarrow> SortOptions \<Rightarrow> int list \<Rightarrow> ProcessNode \<Rightarrow> ProcessNode \<Rightarrow> real" where
  "compareProcesses rt so favs a b =
     (let aFav = hasFavoritePort favs a;
          bFav = hasFavoritePort favs b
      in if aFav \<noteq> bFav then (if aFav then - 1 else 1)
         else
           (let comparison =
                  (case field so of
                     by_pid \<Rightarrow> real_of_int (pid a - pid b)
                   | by_name \<Rightarrow> real_of_int (localeCompare rt (name a) (name b))
                   | by_port \<Rightarrow> real_of_int (firstPortOr0 a - firstPortOr0 b)
                   | by_memory \<Rightarrow> real_of_int (memoryUsage a - memoryUsage b)
                   | by_cpu \<Rightarrow> cpuUsage a - cpuUsage b
                   | by_user \<Rightarrow> real_of_int (localeCompare rt (user a) (user b)))
            in if direction so = asc then comparison else - comparison))"

text \<open>
  \<open>Array.prototype.sort\<close> with a comparator is a stable sort: an element goes before
  another when the comparator says so, and elements that compare equal keep their order.
  It is modelled as the stable insertion sort.
\<close>

fun insertBy :: "('a \<Rightarrow> 'a \<Rightarrow> real) \<Rightarrow> 'a \<Rightarrow> 'a list \<Rightarrow> 'a list" where
  "insertBy cmp x [] = [x]"
| "insertBy cmp x (y # ys) = (if cmp x y \<le> 0 then x # y # ys else y # insertBy cmp x ys)"

definition sortBy :: "('a \<Rightarrow> 'a \<Rightarrow> real) \<Rightarrow> 'a list \<Rightarrow> 'a list" where
  "sortBy cmp xs = foldr (insertBy cmp) xs []"

definition sortedProcesses ::
  "Runtime \<Rightarrow> ProcessNode list \<Rightarrow> FilterOptions \<Rightarrow> SortOptions \<Rightarrow> int list \<Rightarrow> ProcessNode list" where
  "sortedProcesses rt ps fo so favs = sortBy (compareProcesses rt so favs) (filteredProcesses rt ps fo)"

subsection \<open>Initial state\<close>

text \<open>
  The state \<open>create\<close> builds (lines 65 to 99), for the favorites list that was loaded from
  \<open>localStorage\<close>.
\<close>

definition initialStore :: "int list \<Rightarrow> StoreState" where
  "initialStore favs =
     \<lparr>processes = [], totalConnections = 0, listeningPorts = 0, dockerAvailable = False,
      lastUpdated = None, isLoading = False, error = None, selectedPid = None,
      selectedPids = {},
      filterOptions = \<lparr>showAllConnections = False, searchQuery = [],
                        selectedProtocol = None, selectedState = None\<rparr>,
      sortOptions = \<lparr>field = by_port, direction = asc\<rparr>,
      favoritePorts = favs, history = [], pollingInterval = 2000, isPolling = False,
      showDetailsPanel = False\<rparr>"

definition initialWorld :: "int list \<Rightarrow> World" where
  "initialWorld favs = \<lparr>store = initialStore favs, invoked = [], timers = [], localStorage = []\<rparr>"

section \<open>Loading the favorites (\<open>JSON.parse\<close> of the stored text)\<close>

text \<open>
  \<open>JSON.parse\<close> is the runtime's. It accepts exactly the JSON texts (one value with
  optional white space around it) and throws a \<open>SyntaxError\<close> on every other string.
  The parser below follows the JSON grammar: \<open>null\<close>, \<open>true\<close>, \<open>false\<close>, numbers,
  strings with their escapes, arrays and objects. A string value is kept as its list of
  code units, a number as the exact value of its decimal notation.

  The recursion into arrays and objects runs on a fuel argument; \<open>JSON_parse\<close> starts it
  with more fuel than a text of that length can use.
\<close>

datatype json =
    JNull | JBool bool | JNumber real | JString "nat list"
  | JArray "json list" | JObject "(nat list \<times> json) list"

datatype 'a parsed = Ok 'a string | SyntaxErr | OutOfFuel

definition isJsonWs :: "char \<Rightarrow> bool" where
  "isJsonWs c = ((of_char c :: nat) \<in> {32, 9, 10, 13})"

definition skipWs :: "string \<Rightarrow> string" where
  "skipWs cs = dropWhile isJsonWs cs"

definition hexValue :: "char \<Rightarrow> nat option" where
  "hexValue c =
     (let k = (of_char c :: nat) in
      if 48 \<le> k \<and> k \<le> 57 then Some (k - 48)
      else if 65 \<le> k \<and> k \<le> 70 then Some (k - 55)
      else if 97 \<le> k \<and> k \<le> 102 then Some (k - 87)
      else None)"

text \<open>The four hexadecimal digits of a \<open>\uXXXX\<close> escape.\<close>

definition hex4 :: "string \<Rightarrow> nat option" where
  "hex4 cs =
     (case map hexValue cs of
        [Some a, Some b, Some c, Some d] \<Rightarrow> Some (((a * 16 + b) * 16 + c) * 16 + d)
      | _ \<Rightarrow> None)"

text \<open>The character after a backslash, other than \<open>u\<close>.\<close>

definition escapeValue :: "char \<Rightarrow> nat option" where
  "escapeValue e =
     (if e = CHR 0x22 then Some 34
      else if e = CHR 0x5C then Some 92
      else if e = CHR ''/'' then Some 47
      else if e = CHR ''b'' then Some 8
      else if e = CHR ''f'' then Some 12
      else if e = CHR ''n'' then Some 10
      else if e = CHR ''r'' then Some 13
      else if e = CHR ''t'' then Some 9
      else None)"

text \<open>The characters of a string after its opening quote, up to the closing quote.\<close>

fun parseChars :: "string \<Rightarrow> nat list \<Rightarrow> (nat list) parsed" where
  "parseChars [] acc = SyntaxErr"
| "parseChars (c # cs) acc =
     (if c = CHR 0x22 then Ok (rev acc) cs
      else if c = CHR 0x5C then
        (case cs of
           [] \<Rightarrow> SyntaxErr
         | e # es \<Rightarrow>
             if e = CHR ''u'' then
               (case hex4 (take 4 es) of
                  None \<Rightarrow> SyntaxErr
                | Some v \<Rightarrow> parseChars (drop 4 es) (v # acc))
             else
               (case escapeValue e of
                  None \<Rightarrow> SyntaxErr
                | Some v \<Rightarrow> parseChars es (v # acc)))
      else if (of_char c :: nat) < 32 then SyntaxErr
      else parseChars cs (of_char c # acc))"

definition digitsValue :: "string \<Rightarrow> nat" where
  "digitsValue ds = foldl (\<lambda>a c. 10 * a + digitValue c) 0 ds"

text \<open>
  A number: an optional minus, the integer part (a single \<open>0\<close>, or digits that do not
  start with \<open>0\<close>), an optional fraction, an optional exponent.
\<close>

definition parseFraction :: "string \<Rightarrow> (real \<times> string) option" where
  "parseFraction cs =
     (case cs of
        [] \<Rightarrow> Some (0, cs)
      | c # rest \<Rightarrow>
          if c = CHR ''.'' then
            (let ds = takeWhile isDigit rest in
             if ds = [] then None
             else Some (real (digitsValue ds) / 10 ^ length ds, dropWhile isDigit rest))
          else Some (0, cs))"

definition parseExponent :: "string \<Rightarrow> (int \<times> string) option" where
  "parseExponent cs =
     (case cs of
        [] \<Rightarrow> Some (0, cs)
      | c # rest \<Rightarrow>
          if c = CHR ''e'' \<or> c = CHR ''E'' then
            (let neg = (case rest of [] \<Rightarrow> False | s # r \<Rightarrow> s = CHR ''-'');
                 rest1 = (case rest of [] \<Rightarrow> []
                          | s # r \<Rightarrow> if s = CHR ''-'' \<or> s = CHR ''+'' then r else rest);
                 ds = takeWhile isDigit rest1
             in if ds = [] then None
                else Some ((if neg then - 1 else 1) * int (digitsValue ds), dropWhile isDigit rest1))
          else Some (0, cs))"

definition scale10 :: "real \<Rightarrow> int \<Rightarrow> real" where
  "scale10 x e = (if 0 \<le> e then x * 10 ^ nat e else x / 10 ^ nat (- e))"

definition parseNumber :: "string \<Rightarrow> json parsed" where
  "parseNumber cs =
     (let neg = (case cs of [] \<Rightarrow> False | c # r \<Rightarrow> c = CHR ''-'');
          cs1 = (if neg then tl cs else cs);
          ds = takeWhile isDigit cs1
      in if ds = [] \<or> (1 < length ds \<and> hd ds = CHR ''0'') then SyntaxErr
         else
           (case parseFraction (dropWhile isDigit cs1) of
              None \<Rightarrow> SyntaxErr
            | Some (fr, cs2) \<Rightarrow>
                (case parseExponent cs2 of
                   None \<Rightarrow> SyntaxErr
                 | Some (ex, cs3) \<Rightarrow>
                     Ok (JNumber ((if neg then - 1 else 1) * scale10 (real (digitsValue ds) + fr) ex))
                        cs3)))"

definition parseLiteral :: "string \<Rightarrow> json parsed" where
  "parseLiteral cs =
     (if startsWith cs ''null'' then Ok JNull (drop 4 cs)
      else if startsWith cs ''true'' then Ok (JBool True) (drop 4 cs)
      else if startsWith cs ''false'' then Ok (JBool False) (drop 5 cs)
      else SyntaxErr)"

fun parseValue :: "nat \<Rightarrow> string \<Rightarrow> json parsed"
  and parseElements :: "nat \<Rightarrow> string \<Rightarrow> json list \<Rightarrow> json parsed"
  and parseMembers :: "nat \<Rightarrow> string \<Rightarrow> (nat list \<times> json) list \<Rightarrow> json parsed"
where
  "parseValue 0 cs = OutOfFuel"
| "parseValue (Suc n) cs =
     (case skipWs cs of
        [] \<Rightarrow> SyntaxErr
      | c # rest \<Rightarrow>
          if c = CHR ''['' then
            (case skipWs rest of
               [] \<Rightarrow> SyntaxErr
             | d # rest1 \<Rightarrow> if d = CHR '']'' then Ok (JArray []) rest1 else parseElements n rest [])
          else if c = CHR ''{'' then
            (case skipWs rest of
               [] \<Rightarrow> SyntaxErr
             | d # rest1 \<Rightarrow> if d = CHR ''}'' then Ok (JObject []) rest1 else parseMembers n rest [])
          else if c = CHR 0x22 then
            (case parseChars rest [] of
               Ok s rest1 \<Rightarrow> Ok (JString s) rest1
             | SyntaxErr \<Rightarrow> SyntaxErr
             | OutOfFuel \<Rightarrow> OutOfFuel)
          else if c = CHR ''-'' \<or> isDigit c then parseNumber (c # rest)
          else parseLiteral (c # rest))"
| "parseElements 0 cs acc = OutOfFuel"
| "parseElements (Suc n) cs acc =
     (case parseValue n cs of
        Ok v rest \<Rightarrow>
          (case skipWs rest of
             [] \<Rightarrow> SyntaxErr
           | d # rest1 \<Rightarrow>
               if d = CHR '','' then parseElements n rest1 (v # acc)
               else if d = CHR '']'' then Ok (JArray (rev (v # acc))) rest1
               else SyntaxErr)
      | SyntaxErr \<Rightarrow> SyntaxErr
      | OutOfFuel \<Rightarrow> OutOfFuel)"
| "parseMembers 0 cs acc = OutOfFuel"
| "parseMembers (Suc n) cs acc =
     (case skipWs cs of
        [] \<Rightarrow> SyntaxErr
      | q # rest \<Rightarrow>
          if q = CHR 0x22 then
            (case parseChars rest [] of
               Ok k rest1 \<Rightarrow>
                 (case skipWs rest1 of
                    [] \<Rightarrow> SyntaxErr
                  | c # rest2 \<Rightarrow>
                      if c = CHR '':'' then
                        (case parseValue n rest2 of
                           Ok v rest3 \<Rightarrow>
                             (case skipWs rest3 of
                                [] \<Rightarrow> SyntaxErr
                              | d # rest4 \<Rightarrow>
                                  if d = CHR '','' then parseMembers n rest4 ((k, v) # acc)
                                  else if d = CHR ''}'' then Ok (JObject (rev ((k, v) # acc))) rest4
                                  else SyntaxErr)
                         | SyntaxErr \<Rightarrow> SyntaxErr
                         | OutOfFuel \<Rightarrow> OutOfFuel)
                      else SyntaxErr)
             | SyntaxErr \<Rightarrow> SyntaxErr
             | OutOfFuel \<Rightarrow> OutOfFuel)
          else SyntaxErr)"

text \<open>
  A parse step is well-behaved on its input when it did not run out of fuel and, if it
  succeeded, left less text than it was given.
\<close>

definition consumes :: "'a parsed \<Rightarrow> string \<Rightarrow> bool" where
  "consumes res cs = (case res of Ok v r \<Rightarrow> length r < length cs | SyntaxErr \<Rightarrow> True | OutOfFuel \<Rightarrow> False)"

text \<open>The whole text must be one value, with nothing but white space after it.\<close>

definition JSON_parse :: "string \<Rightarrow> json parsed" where
  "JSON_parse s =
     (case parseValue (2 * length s + 2) s of
        Ok v rest \<Rightarrow> if skipWs rest = [] then Ok v [] else SyntaxErr
      | SyntaxErr \<Rightarrow> SyntaxErr
      | OutOfFuel \<Rightarrow> OutOfFuel)"

text \<open>
  Line 89 of the store: \<open>JSON.parse(localStorage.getItem('favoritePorts') || '[]')\<close>.
  A missing item (\<open>null\<close>) and the empty string are falsy.
\<close>

definition storedFavorites :: "(string \<times> string) list \<Rightarrow> string" where
  "storedFavorites ls =
     (case getItem ''favoritePorts'' ls of
        None \<Rightarrow> ''[]''
      | Some s \<Rightarrow> if s = [] then ''[]'' else s)"

text \<open>
  The parsed value becomes \<open>favoritePorts\<close> as it is. The field is declared \<open>number[]\<close>:
  an array of integers is a favorites list; any other JSON value is kept too, but is not a
  value of the declared type.
\<close>

definition asInt :: "json \<Rightarrow> int option" where
  "asInt v = (case v of JNumber x \<Rightarrow> (if x = of_int \<lfloor>x\<rfloor> then Some \<lfloor>x\<rfloor> else None) | _ \<Rightarrow> None)"

definition asPorts :: "json \<Rightarrow> int list option" where
  "asPorts v =
     (case v of
        JArray vs \<Rightarrow> (if list_all (\<lambda>x. asInt x \<noteq> None) vs then Some (map (\<lambda>x. the (asInt x)) vs) else None)
      | _ \<Rightarrow> None)"

datatype StoreCreation =
    Created StoreState       \<comment> \<open>the store, with the loaded favorites list\<close>
  | CreatedUntyped json      \<comment> \<open>the store, its \<open>favoritePorts\<close> not a list of integers\<close>
  | Thrown                   \<comment> \<open>\<open>JSON.parse\<close> threw; \<open>create\<close> does not return\<close>
  | Undetermined             \<comment> \<open>the parser ran out of fuel\<close>

definition createStore :: "(string \<times> string) list \<Rightarrow> StoreCreation" where
  "createStore ls =
     (case JSON_parse (storedFavorites ls) of
        Ok v rest \<Rightarrow> (case asPorts v of Some favs \<Rightarrow> Created (initialStore favs) | None \<Rightarrow> CreatedUntyped v)
      | SyntaxErr \<Rightarrow> Thrown
      | OutOfFuel \<Rightarrow> Undetermined)"

subsection \<open>Sample values\<close>

definition sampleInput :: "int \<Rightarrow> HistoryInput" where
  "sampleInput k =
     \<lparr>action = act_kill, processName = ''node'', entry_pid = k, entry_port = Some 3000,
      entry_success = True, entry_message = ''Process terminated''\<rparr>"

text \<open>A full log: 100 entries for the pids 99 down to 0, the entry for pid 0 the oldest.\<close>

definition fullHistory :: "HistoryEntry list" where
  "fullHistory = map (\<lambda>k. mkEntry (sampleInput (int k)) ''id'' (Date ''t'')) (rev [0..<100])"

definition sampleProcess :: "int \<Rightarrow> string \<Rightarrow> int list \<Rightarrow> bool \<Rightarrow> ProcessNode" where
  "sampleProcess k nm ps prot =
     \<lparr>node_id = toString k, pid = k, name = nm, exePath = None, commandLine = None,
      user = ''root'', memoryUsage = 1024, cpuUsage = 0, startTime = None,
      ports = map (\<lambda>p. \<lparr>protocol = tcp, localAddress = ''0.0.0.0'', localPort = p,
                          remoteAddress = None, remotePort = None, state = LISTENING\<rparr>) ps,
      isDockerProxy = False, container = None, isProtected = prot\<rparr>"

text \<open>A snapshot with a protected system process (pid 1) and an ordinary one (pid 4242).\<close>

definition sampleWorld :: World where
  "sampleWorld =
     (initialWorld [])\<lparr>store := (initialStore [])\<lparr>processes :=
        [sampleProcess 1 ''launchd'' [22] True, sampleProcess 4242 ''node'' [3000] False]\<rparr>\<rparr>"

definition sampleSnapshot :: AppState where
  "sampleSnapshot =
     \<lparr>as_processes = [sampleProcess 4242 ''node'' [3000] False], as_totalConnections = 1,
      as_listeningPorts = 1, as_dockerAvailable = True, as_lastUpdated = ''2025-11-30T12:00:00Z''\<rparr>"

definition sampleError :: AppError where
  "sampleError = \<lparr>code = ''SCAN_FAILED'', err_message = Some ''permission denied'', details = None\<rparr>"

definition emptyDialog :: PortSearchState where
  "emptyDialog = \<lparr>ps_port = [], ps_results = [], ps_isSearching = False, ps_error = None\<rparr>"

text \<open>A stand-in for the runtime's string operations on ASCII text.\<close>

definition asciiLower :: "char \<Rightarrow> char" where
  "asciiLower c =
     (if 65 \<le> (of_char c :: nat) \<and> (of_char c :: nat) \<le> 90 then char_of ((of_char c :: nat) + 32) else c)"

fun compareStrings :: "string \<Rightarrow> string \<Rightarrow> int" where
  "compareStrings [] [] = 0"
| "compareStrings [] (b # bs) = - 1"
| "compareStrings (a # as) [] = 1"
| "compareStrings (a # as) (b # bs) =
     (if (of_char a :: nat) < of_char b then - 1
      else if (of_char b :: nat) < of_char a then 1
      else compareStrings as bs)"

definition sampleRuntime :: Runtime where
  "sampleRuntime = \<lparr>toLowerCase = map asciiLower, localeCompare = compareStrings\<rparr>"

definition noFilter :: FilterOptions where
  "noFilter = \<lparr>showAllConnections = False, searchQuery = [], selectedProtocol = None,
               selectedState = None\<rparr>"

text \<open>Three processes: pid 100 on port 3000, pid 200 on port 22, pid 300 on port 8080.\<close>

definition sampleProcesses :: "ProcessNode list" where
  "sampleProcesses =
     [sampleProcess 300 ''nginx'' [8080] False, sampleProcess 200 ''sshd'' [22] False,
      sampleProcess 100 ''node'' [3000] False]"

section \<open>Favorites registry\<close>

lemma favoritePorts_add:
  "favoritePorts (store (addFavoritePort p w)) = favoritePorts (store w) @ [p]"
  by (simp add: addFavoritePort_def Let_def)

lemma favoritePorts_remove:
  "favoritePorts (store (removeFavoritePort p w)) = filter (\<lambda>q. q \<noteq> p) (favoritePorts (store w))"
  by (simp add: removeFavoritePort_def Let_def)

lemma storage_add:
  "getItem ''favoritePorts'' (localStorage (addFavoritePort p w)) =
     Some (JSON_stringify (favoritePorts (store w) @ [p]))"
  by (simp add: addFavoritePort_def Let_def getItem_def setItem_def)

lemma storage_remove:
  "getItem ''favoritePorts'' (localStorage (removeFavoritePort p w)) =
     Some (JSON_stringify (filter (\<lambda>q. q \<noteq> p) (favoritePorts (store w))))"
  by (simp add: removeFavoritePort_def Let_def getItem_def setItem_def)

text \<open>
  C3, as stated, fails: with port 3000 already in the list, \<open>addFavoritePort 3000\<close> stores
  it a second time. The list changes and is no longer free of duplicates.
\<close>

theorem addFavoritePort_duplicates:
  "3000 \<in> set (favoritePorts (store (initialWorld [3000])))
   \<and> distinct (favoritePorts (store (initialWorld [3000])))
   \<and> favoritePorts (store (addFavoritePort 3000 (initialWorld [3000]))) = [3000, 3000]
   \<and> favoritePorts (store (addFavoritePort 3000 (initialWorld [3000])))
       \<noteq> favoritePorts (store (initialWorld [3000]))
   \<and> \<not> distinct (favoritePorts (store (addFavoritePort 3000 (initialWorld [3000]))))"
  by (simp add: favoritePorts_add initialWorld_def initialStore_def)

text \<open>
  C3, amended: \<open>addFavoritePort p\<close> appends \<open>p\<close> at the end of the list whether or not it
  is there, and writes the new list through to \<open>localStorage\<close>. When \<open>p\<close> is already
  present the set of favorite ports stays the same (the list gains a second occurrence);
  when \<open>p\<close> is new, a duplicate-free list stays duplicate-free. The membership test is the
  caller's: \<open>toggleFavoritePort p\<close> adds only an absent port and removes a present one, so
  it keeps a duplicate-free list duplicate-free.
\<close>

theorem addFavoritePort_appends:
  "favoritePorts (store (addFavoritePort p w)) = favoritePorts (store w) @ [p]
   \<and> getItem ''favoritePorts'' (localStorage (addFavoritePort p w)) =
       Some (JSON_stringify (favoritePorts (store w) @ [p]))
   \<and> (p \<in> set (favoritePorts (store w)) \<longrightarrow>
         set (favoritePorts (store (addFavoritePort p w))) = set (favoritePorts (store w)))
   \<and> (distinct (favoritePorts (store w)) \<and> p \<notin> set (favoritePorts (store w)) \<longrightarrow>
         distinct (favoritePorts (store (addFavoritePort p w))))
   \<and> (distinct (favoritePorts (store w)) \<longrightarrow>
         distinct (favoritePorts (store (toggleFavoritePort p w))))"
  by (auto simp: favoritePorts_add favoritePorts_remove storage_add toggleFavoritePort_def)

theorem addFavoritePort_appends_witness:
  "distinct (favoritePorts (store (initialWorld [3000, 8080])))
   \<and> favoritePorts (store (addFavoritePort 5173 (initialWorld [3000, 8080]))) = [3000, 8080, 5173]
   \<and> getItem ''favoritePorts'' (localStorage (addFavoritePort 5173 (initialWorld [3000, 8080])))
       = Some ''[3000,8080,5173]''
   \<and> set (favoritePorts (store (addFavoritePort 3000 (initialWorld [3000, 8080])))) = {3000, 8080}
   \<and> favoritePorts (store (toggleFavoritePort 5173 (initialWorld [3000, 8080]))) = [3000, 8080, 5173]
   \<and> favoritePorts (store (toggleFavoritePort 3000 (initialWorld [3000, 8080]))) = [8080]
   \<and> distinct (favoritePorts (store (toggleFavoritePort 3000 (initialWorld [3000, 8080]))))"
  using addFavoritePort_appends [of 5173 "initialWorld [3000, 8080]"]
    addFavoritePort_appends [of 3000 "initialWorld [3000, 8080]"]
  by (auto simp: favoritePorts_add favoritePorts_remove initialWorld_def initialStore_def
      toggleFavoritePort_def JSON_stringify_def toString_def digits.simps)

text \<open>
  C10: \<open>removeFavoritePort p\<close> keeps exactly the entries different from \<open>p\<close>, in their
  order. So \<open>p\<close> is absent afterwards however often it occurred before, and a list that
  did not hold \<open>p\<close> is unchanged. The new list is written through to \<open>localStorage\<close>.
\<close>

theorem removeFavoritePort_removes_all:
  "favoritePorts (store (removeFavoritePort p w)) = filter (\<lambda>q. q \<noteq> p) (favoritePorts (store w))
   \<and> p \<notin> set (favoritePorts (store (removeFavoritePort p w)))
   \<and> count_list (favoritePorts (store (removeFavoritePort p w))) p = 0
   \<and> (p \<notin> set (favoritePorts (store w)) \<longrightarrow>
        favoritePorts (store (removeFavoritePort p w)) = favoritePorts (store w))
   \<and> getItem ''favoritePorts'' (localStorage (removeFavoritePort p w)) =
       Some (JSON_stringify (favoritePorts (store (removeFavoritePort p w))))"
  by (auto simp: favoritePorts_remove storage_remove filter_id_conv)

theorem removeFavoritePort_removes_all_witness:
  "favoritePorts (store (removeFavoritePort 80 (initialWorld [80, 443, 80]))) = [443]
   \<and> 80 \<notin> set (favoritePorts (store (removeFavoritePort 80 (initialWorld [80, 443, 80]))))
   \<and> 22 \<notin> set (favoritePorts (store (initialWorld [80, 443, 80])))
   \<and> favoritePorts (store (removeFavoritePort 22 (initialWorld [80, 443, 80]))) = [80, 443, 80]"
  using removeFavoritePort_removes_all [of 80 "initialWorld [80, 443, 80]"]
    removeFavoritePort_removes_all [of 22 "initialWorld [80, 443, 80]"]
  by (simp add: initialWorld_def initialStore_def)

section \<open>Audit log\<close>

lemma take_append_take: "take n (xs @ take n ys) = take n (xs @ ys)"
  by (simp add: min_def)

lemma history_addHistoryEntries:
  "history (addHistoryEntries es st) =
     (if es = [] then history st
      else take 100 (rev (map (\<lambda>(e, i, t). mkEntry e i t) es) @ history st))"
proof (induction es arbitrary: st)
  case Nil
  then show ?case by simp
next
  case (Cons x es)
  obtain e i t where x: "x = (e, i, t)" by (cases x) auto
  have "take 100 (rev (map (\<lambda>(e, i, t). mkEntry e i t) es) @ take 100 (mkEntry e i t # history st))
        = take 100 (rev (map (\<lambda>(e, i, t). mkEntry e i t) es) @ mkEntry e i t # history st)"
    by (rule take_append_take)
  then show ?case
    by (simp add: x Cons.IH addHistoryEntry_def)
qed

lemma take_full_Cons: "length xs = Suc n \<Longrightarrow> take (Suc n) (x # xs) = x # butlast xs"
  by (simp add: butlast_conv_take)

lemma history_full:
  assumes "length (history st) = 100"
  shows "history (addHistoryEntry e i t st) = mkEntry e i t # butlast (history st)"
proof -
  have "take (Suc 99) (mkEntry e i t # history st) = mkEntry e i t # butlast (history st)"
    using assms by (intro take_full_Cons) simp
  then show ?thesis by (simp add: addHistoryEntry_def)
qed

lemma history_seq:
  assumes "es \<noteq> [] \<or> length (history st) \<le> 100"
  shows "history (addHistoryEntries es st) =
           take 100 (rev (map (\<lambda>(e, i, t). mkEntry e i t) es) @ history st)"
  using assms by (auto simp: history_addHistoryEntries)

text \<open>
  C7: after \<open>addHistoryEntry\<close> the log holds at most 100 entries, whatever it held before.
  The new entry is at the head and the older entries follow in their order. A log of
  fewer than 100 entries keeps all of them; a log of exactly 100 loses its last (oldest)
  entry. After any sequence of calls that is not empty, or that starts from a log of at
  most 100 entries, the log is the first 100 of: the new entries, latest call first,
  followed by the old log; so it holds at most 100 entries.
\<close>

theorem addHistoryEntry_bounded_newest_first:
  "length (history (addHistoryEntry e i t st)) \<le> 100
   \<and> history (addHistoryEntry e i t st) = take 100 (mkEntry e i t # history st)
   \<and> hd (history (addHistoryEntry e i t st)) = mkEntry e i t
   \<and> (length (history st) < 100 \<longrightarrow>
        history (addHistoryEntry e i t st) = mkEntry e i t # history st)
   \<and> (length (history st) = 100 \<longrightarrow>
        history (addHistoryEntry e i t st) = mkEntry e i t # butlast (history st))
   \<and> (es \<noteq> [] \<or> length (history st) \<le> 100 \<longrightarrow>
        length (history (addHistoryEntries es st)) \<le> 100
        \<and> history (addHistoryEntries es st) =
            take 100 (rev (map (\<lambda>(e, i, t). mkEntry e i t) es) @ history st))"
proof (intro conjI impI)
  show "length (history (addHistoryEntry e i t st)) \<le> 100"
    by (simp add: addHistoryEntry_def)
  show "history (addHistoryEntry e i t st) = take 100 (mkEntry e i t # history st)"
    by (simp add: addHistoryEntry_def)
  show "hd (history (addHistoryEntry e i t st)) = mkEntry e i t"
    by (simp add: addHistoryEntry_def)
  show "history (addHistoryEntry e i t st) = mkEntry e i t # history st"
    if "length (history st) < 100"
    using that by (simp add: addHistoryEntry_def)
  show "history (addHistoryEntry e i t st) = mkEntry e i t # butlast (history st)"
    if "length (history st) = 100"
    using that by (rule history_full)
  show "history (addHistoryEntries es st) =
          take 100 (rev (map (\<lambda>(e, i, t). mkEntry e i t) es) @ history st)"
    if "es \<noteq> [] \<or> length (history st) \<le> 100"
    using that by (rule history_seq)
  then show "length (history (addHistoryEntries es st)) \<le> 100"
    if "es \<noteq> [] \<or> length (history st) \<le> 100"
    using that by simp
qed

theorem addHistoryEntry_bounded_newest_first_witness:
  "length fullHistory = 100
   \<and> history (addHistoryEntry (sampleInput 100) ''new'' (Date ''now'') ((initialStore [])\<lparr>history := fullHistory\<rparr>))
       = mkEntry (sampleInput 100) ''new'' (Date ''now'') # butlast fullHistory
   \<and> length (history (addHistoryEntry (sampleInput 100) ''new'' (Date ''now'')
         ((initialStore [])\<lparr>history := fullHistory\<rparr>))) = 100
   \<and> last fullHistory = mkEntry (sampleInput 0) ''id'' (Date ''t'')
   \<and> mkEntry (sampleInput 0) ''id'' (Date ''t'') \<notin> set (history (addHistoryEntry (sampleInput 100) ''new'' (Date ''now'')
         ((initialStore [])\<lparr>history := fullHistory\<rparr>)))
   \<and> history (addHistoryEntries
         [(sampleInput 1, ''a'', Date ''t1''), (sampleInput 2, ''b'', Date ''t2''),
          (sampleInput 3, ''c'', Date ''t3'')] (initialStore []))
       = [mkEntry (sampleInput 3) ''c'' (Date ''t3''), mkEntry (sampleInput 2) ''b'' (Date ''t2''),
          mkEntry (sampleInput 1) ''a'' (Date ''t1'')]"
proof -
  let ?st = "(initialStore [])\<lparr>history := fullHistory\<rparr>"
  let ?new = "mkEntry (sampleInput 100) ''new'' (Date ''now'')"
  let ?es = "[(sampleInput 1, ''a'', Date ''t1''), (sampleInput 2, ''b'', Date ''t2''),
          (sampleInput 3, ''c'', Date ''t3'')]"
  have len: "length fullHistory = 100"
    by (simp add: fullHistory_def)
  have full: "history (addHistoryEntry (sampleInput 100) ''new'' (Date ''now'') ?st) = ?new # butlast fullHistory"
  proof -
    have "length (history ?st) = 100" using len by simp
    then have "history (addHistoryEntry (sampleInput 100) ''new'' (Date ''now'') ?st) =
        ?new # butlast (history ?st)"
      using addHistoryEntry_bounded_newest_first [of "sampleInput 100" "''new''" "Date ''now''" ?st "[]"]
      by blast
    moreover have "history ?st = fullHistory" by simp
    ultimately show ?thesis by (simp only:)
  qed
  have oldest: "last fullHistory = mkEntry (sampleInput 0) ''id'' (Date ''t'')"
    by (simp add: fullHistory_def last_map last_rev)
  have gone: "mkEntry (sampleInput 0) ''id'' (Date ''t'') \<notin> set (?new # butlast fullHistory)"
    by code_simp
  have seq: "history (addHistoryEntries ?es (initialStore [])) =
       [mkEntry (sampleInput 3) ''c'' (Date ''t3''), mkEntry (sampleInput 2) ''b'' (Date ''t2''),
          mkEntry (sampleInput 1) ''a'' (Date ''t1'')]"
    using addHistoryEntry_bounded_newest_first [of "sampleInput 100" "''new''" "Date ''now''" "initialStore []" ?es]
    by (simp add: initialStore_def)
  show ?thesis
    using len full oldest gone seq by simp
qed

section \<open>Action mediator\<close>

lemma history_killProcess_end:
  "history (store (snd (killProcess_end process pid' force r i t w))) =
     take 100 (mkEntry (killEntry process pid' force
                  (success (fst (killProcess_end process pid' force r i t w)))
                  (message (fst (killProcess_end process pid' force r i t w)))) i t
               # history (store w))"
  by (cases r) (simp_all add: killProcess_end_def Let_def addHistoryEntry_def setTimeout_def)

lemma history_containerAction_end:
  "history (store (snd (containerAction_end process cid act r i t w))) =
     take 100 (mkEntry (containerEntry process cid act
                  (success (fst (containerAction_end process cid act r i t w)))
                  (message (fst (containerAction_end process cid act r i t w)))) i t
               # history (store w))"
  by (cases r) (simp_all add: containerAction_end_def Let_def addHistoryEntry_def setTimeout_def)

lemma killProcess_begin_frame:
  "store (snd (killProcess_begin pid' force w)) = store w
   \<and> fst (killProcess_begin pid' force w) = List.find (\<lambda>p. pid p = pid') (processes (store w))
   \<and> invoked (snd (killProcess_begin pid' force w)) = invoked w @ [kill_process pid' force]"
  by (simp add: killProcess_begin_def Let_def invoke_def)

lemma containerAction_begin_frame:
  "store (snd (containerAction_begin cid act w)) = store w
   \<and> fst (containerAction_begin cid act w) = List.find (hasContainerId cid) (processes (store w))
   \<and> invoked (snd (containerAction_begin cid act w)) = invoked w @ [container_action cid act]"
  by (simp add: containerAction_begin_def Let_def invoke_def)

lemma killProcess_unfold:
  "killProcess pid' force r i t w =
     killProcess_end (fst (killProcess_begin pid' force w)) pid' force r i t (snd (killProcess_begin pid' force w))"
  by (simp add: killProcess_def split: prod.split)

lemma containerAction_unfold:
  "containerAction cid act r i t w =
     containerAction_end (fst (containerAction_begin cid act w)) cid act r i t (snd (containerAction_begin cid act w))"
  by (simp add: containerAction_def split: prod.split)

lemma history_killProcess:
  "history (store (snd (killProcess pid' force r i t w))) =
     take 100 (mkEntry (killEntry (List.find (\<lambda>p. pid p = pid') (processes (store w))) pid' force
                  (success (fst (killProcess pid' force r i t w)))
                  (message (fst (killProcess pid' force r i t w)))) i t
               # history (store w))"
  unfolding killProcess_unfold
  by (simp add: history_killProcess_end killProcess_begin_frame)

lemma history_containerAction:
  "history (store (snd (containerAction cid act r i t w))) =
     take 100 (mkEntry (containerEntry (List.find (hasContainerId cid) (processes (store w))) cid act
                  (success (fst (containerAction cid act r i t w)))
                  (message (fst (containerAction cid act r i t w)))) i t
               # history (store w))"
  unfolding containerAction_unfold
  by (simp add: history_containerAction_end containerAction_begin_frame)

lemma invoked_killProcess_end:
  "invoked (snd (killProcess_end process pid' force r i t w)) = invoked w"
  by (cases r) (simp_all add: killProcess_end_def Let_def setTimeout_def)

lemma invoked_killProcess:
  "invoked (snd (killProcess pid' force r i t w)) = invoked w @ [kill_process pid' force]"
  unfolding killProcess_unfold
  by (simp add: invoked_killProcess_end killProcess_begin_frame)

text \<open>
  C6: one call of \<open>killProcess\<close> or \<open>containerAction\<close> puts exactly one new entry at the head
  of the log, whatever the backend answers (a result with \<open>success\<close> true or false, or a
  rejection): the log afterwards is the first 100 of the new entry followed by the old log.
  The entry carries the action, the pid, and the \<open>success\<close> and \<open>message\<close> that the call
  returns. With fewer than 100 entries before, the length grows by exactly one. The part of
  the action before the \<open>await\<close> writes nothing to the log.
\<close>

theorem audit_entry_exactly_once:
  "history (store (snd (killProcess pid' force r i t w))) =
     take 100 (mkEntry (killEntry (List.find (\<lambda>p. pid p = pid') (processes (store w))) pid' force
                  (success (fst (killProcess pid' force r i t w)))
                  (message (fst (killProcess pid' force r i t w)))) i t
               # history (store w))
   \<and> history (store (snd (containerAction cid act r i t w))) =
     take 100 (mkEntry (containerEntry (List.find (hasContainerId cid) (processes (store w))) cid act
                  (success (fst (containerAction cid act r i t w)))
                  (message (fst (containerAction cid act r i t w)))) i t
               # history (store w))
   \<and> (length (history (store w)) < 100 \<longrightarrow>
        length (history (store (snd (killProcess pid' force r i t w)))) = Suc (length (history (store w)))
        \<and> length (history (store (snd (containerAction cid act r i t w)))) = Suc (length (history (store w))))
   \<and> history (store (snd (killProcess_begin pid' force w))) = history (store w)
   \<and> history (store (snd (containerAction_begin cid act w))) = history (store w)"
proof (intro conjI impI)
  show "history (store (snd (killProcess_begin pid' force w))) = history (store w)"
    by (simp add: killProcess_begin_frame)
  show "history (store (snd (containerAction_begin cid act w))) = history (store w)"
    by (simp add: containerAction_begin_frame)
  show "length (history (store (snd (killProcess pid' force r i t w)))) = Suc (length (history (store w)))"
    if "length (history (store w)) < 100"
    using that by (simp add: history_killProcess)
  show "length (history (store (snd (containerAction cid act r i t w)))) = Suc (length (history (store w)))"
    if "length (history (store w)) < 100"
    using that by (simp add: history_containerAction)
qed (rule history_killProcess history_containerAction)+

lemmas sample_defs = sampleWorld_def initialWorld_def initialStore_def sampleProcess_def sampleError_def
lemmas mediator_defs = killProcess_def killProcess_begin_def killProcess_end_def
  containerAction_def containerAction_begin_def containerAction_end_def
  killEntry_def containerEntry_def firstLocalPort_def or_default_def hasContainerId_def
  addHistoryEntry_def invoke_def setTimeout_def Let_def

theorem audit_entry_exactly_once_witness:
  "history (store (snd (killProcess 4242 False
       (Resolve \<lparr>success = True, message = ''terminated'', requiredElevation = False\<rparr>)
       ''id1'' (Date ''t1'') sampleWorld)))
     = [mkEntry \<lparr>action = act_kill, processName = ''node'', entry_pid = 4242, entry_port = Some 3000,
                 entry_success = True, entry_message = ''terminated''\<rparr> ''id1'' (Date ''t1'')]
   \<and> history (store (snd (killProcess 4242 True
       (Resolve \<lparr>success = False, message = ''denied'', requiredElevation = True\<rparr>)
       ''id1'' (Date ''t1'') sampleWorld)))
     = [mkEntry \<lparr>action = act_force_kill, processName = ''node'', entry_pid = 4242, entry_port = Some 3000,
                 entry_success = False, entry_message = ''denied''\<rparr> ''id1'' (Date ''t1'')]
   \<and> history (store (snd (killProcess 77 False (Reject sampleError) ''id1'' (Date ''t1'') sampleWorld)))
     = [mkEntry \<lparr>action = act_kill, processName = ''Unknown'', entry_pid = 77, entry_port = None,
                 entry_success = False, entry_message = ''permission denied''\<rparr> ''id1'' (Date ''t1'')]
   \<and> history (store (snd (containerAction ''0123456789abcdef'' stop
       (Reject (sampleError\<lparr>err_message := None\<rparr>)) ''id1'' (Date ''t1'') sampleWorld)))
     = [mkEntry \<lparr>action = act_container_stop, processName = ''0123456789ab'', entry_pid = 0,
                 entry_port = None, entry_success = False,
                 entry_message = ''Failed to execute container action''\<rparr> ''id1'' (Date ''t1'')]"
  using audit_entry_exactly_once [of 4242 False "Resolve \<lparr>success = True, message = ''terminated'', requiredElevation = False\<rparr>"
      "''id1''" "Date ''t1''" sampleWorld "''0123456789abcdef''" stop]
    audit_entry_exactly_once [of 4242 True "Resolve \<lparr>success = False, message = ''denied'', requiredElevation = True\<rparr>"
      "''id1''" "Date ''t1''" sampleWorld "''0123456789abcdef''" stop]
    audit_entry_exactly_once [of 77 False "Reject sampleError" "''id1''" "Date ''t1''" sampleWorld "''0123456789abcdef''" stop]
    audit_entry_exactly_once [of 77 False "Reject (sampleError\<lparr>err_message := None\<rparr>)" "''id1''" "Date ''t1''" sampleWorld
      "''0123456789abcdef''" stop]
  by (simp add: sample_defs mediator_defs)

lemma menuItemFor_OnKill:
  "menuItemFor p fav (OnKill force) =
     Some \<lparr>label = (if force then ''Force Kill (SIGKILL)'' else ''Graceful Stop (SIGTERM)''),
           item_action = OnKill force, disabled = isProtected p\<rparr>"
  by (cases force) (simp_all add: menuItemFor_def menuItems_def)

lemma invoked_onKillSelected:
  "selectedPid (store w) = Some sel \<Longrightarrow> sel \<noteq> 0 \<Longrightarrow>
   invoked (onKillSelected r i t w) = invoked w @ [kill_process sel False]"
  using invoked_killProcess [of sel False r i t w]
  by (cases "killProcess sel False r i t w")
    (simp add: onKillSelected_def handleKillFromPanel_def setSelectedPid_def)

text \<open>
  C1 fails on the code. \<open>killProcess\<close> does not look at \<open>isProtected\<close>: for the protected
  process with pid 1 of the snapshot, with either value of \<open>force\<close>, it sends
  \<open>kill_process\<close> to the backend and returns the backend's result. The buttons that
  terminate a process are disabled for a protected process (the context menu's two items
  carry \<open>disabled = isProtected\<close>), but the keyboard path is not guarded: a click on the
  row of the protected process selects it, and \<open>onKillSelected\<close> (Cmd/Ctrl+K) then calls
  \<open>killProcess\<close> for it, so the request goes to the backend and an audit entry is written.
\<close>

theorem protected_kill_reaches_backend:
  "isProtected (sampleProcess 1 ''launchd'' [22] True)
   \<and> sampleProcess 1 ''launchd'' [22] True \<in> set (processes (store sampleWorld))
   \<and> invoked sampleWorld = []
   \<and> invoked (snd (killProcess 1 False
        (Resolve \<lparr>success = False, message = ''Operation not permitted'', requiredElevation = True\<rparr>)
        ''id1'' (Date ''t1'') sampleWorld)) = [kill_process 1 False]
   \<and> invoked (snd (killProcess 1 True
        (Resolve \<lparr>success = True, message = ''killed'', requiredElevation = False\<rparr>)
        ''id1'' (Date ''t1'') sampleWorld)) = [kill_process 1 True]
   \<and> success (fst (killProcess 1 True
        (Resolve \<lparr>success = True, message = ''killed'', requiredElevation = False\<rparr>)
        ''id1'' (Date ''t1'') sampleWorld))
   \<and> menuItemFor (sampleProcess 1 ''launchd'' [22] True) False (OnKill False)
       = Some \<lparr>label = ''Graceful Stop (SIGTERM)'', item_action = OnKill False, disabled = True\<rparr>
   \<and> menuItemFor (sampleProcess 1 ''launchd'' [22] True) False (OnKill True)
       = Some \<lparr>label = ''Force Kill (SIGKILL)'', item_action = OnKill True, disabled = True\<rparr>
   \<and> selectedPid (store (rowOnClick (sampleProcess 1 ''launchd'' [22] True) sampleWorld)) = Some 1
   \<and> invoked (onKillSelected
        (Resolve \<lparr>success = True, message = ''killed'', requiredElevation = False\<rparr>)
        ''id1'' (Date ''t1'') (rowOnClick (sampleProcess 1 ''launchd'' [22] True) sampleWorld))
       = [kill_process 1 False]
   \<and> history (store (onKillSelected
        (Resolve \<lparr>success = True, message = ''killed'', requiredElevation = False\<rparr>)
        ''id1'' (Date ''t1'') (rowOnClick (sampleProcess 1 ''launchd'' [22] True) sampleWorld)))
       = [mkEntry \<lparr>action = act_kill, processName = ''launchd'', entry_pid = 1, entry_port = Some 22,
                   entry_success = True, entry_message = ''killed''\<rparr> ''id1'' (Date ''t1'')]"
  by (simp add: sample_defs mediator_defs menuItemFor_OnKill rowOnClick_def setSelectedPid_def
      onKillSelected_def handleKillFromPanel_def)

section \<open>Snapshot fetch and poll scheduler\<close>

lemma store_fetchProcesses_begin:
  "store (fetchProcesses_begin w) = (store w)\<lparr>isLoading := True, error := None\<rparr>"
  by (simp add: fetchProcesses_begin_def Let_def invoke_def)

lemma store_fetchProcesses_end_Reject:
  "store (fetchProcesses_end (Reject err) w) =
     (store w)\<lparr>error := Some (or_default (err_message err) ''Failed to fetch processes''),
               isLoading := False\<rparr>"
  by (simp add: fetchProcesses_end_def)

lemma store_fetchProcesses_Reject:
  "store (fetchProcesses (Reject err) w) =
     (store w)\<lparr>error := Some (or_default (err_message err) ''Failed to fetch processes''),
               isLoading := False\<rparr>"
  by (simp add: fetchProcesses_def store_fetchProcesses_end_Reject store_fetchProcesses_begin)

lemma timers_fetchProcesses: "timers (fetchProcesses r w) = timers w"
  by (cases r) (simp_all add: fetchProcesses_def fetchProcesses_end_def fetchProcesses_begin_def Let_def invoke_def)

lemma isPolling_fetchProcesses: "isPolling (store (fetchProcesses r w)) = isPolling (store w)"
  by (cases r) (simp_all add: fetchProcesses_def fetchProcesses_end_def fetchProcesses_begin_def Let_def invoke_def)

text \<open>
  C8: when the fetch fails (\<open>get_processes\<close> rejects), the store afterwards is the store
  before with only \<open>error\<close> (the message, or the default text) and \<open>isLoading\<close> (false)
  changed: \<open>processes\<close>, \<open>totalConnections\<close>, \<open>listeningPorts\<close>, \<open>dockerAvailable\<close> and
  \<open>lastUpdated\<close> keep their values. This holds for the whole fetch and for its part after
  the \<open>await\<close>, from any state. A poll cycle whose fetch fails, while \<open>isPolling\<close> holds,
  arms the next cycle with the same delay as a cycle whose fetch succeeds, and leaves
  \<open>isPolling\<close> set.
\<close>

theorem fetch_failure_keeps_snapshot:
  "store (fetchProcesses (Reject err) w) =
     (store w)\<lparr>error := Some (or_default (err_message err) ''Failed to fetch processes''),
               isLoading := False\<rparr>
   \<and> processes (store (fetchProcesses (Reject err) w)) = processes (store w)
   \<and> totalConnections (store (fetchProcesses (Reject err) w)) = totalConnections (store w)
   \<and> listeningPorts (store (fetchProcesses (Reject err) w)) = listeningPorts (store w)
   \<and> dockerAvailable (store (fetchProcesses (Reject err) w)) = dockerAvailable (store w)
   \<and> lastUpdated (store (fetchProcesses (Reject err) w)) = lastUpdated (store w)
   \<and> store (fetchProcesses_end (Reject err) w) =
     (store w)\<lparr>error := Some (or_default (err_message err) ''Failed to fetch processes''),
               isLoading := False\<rparr>
   \<and> (isPolling (store w) \<longrightarrow>
        timers (poll c (Reject err) w) = timers w @ [(Poll c, c)]
        \<and> timers (poll c (Reject err) w) = timers (poll c (Resolve res) w)
        \<and> isPolling (store (poll c (Reject err) w))
        \<and> processes (store (poll c (Reject err) w)) = processes (store w))"
  by (simp add: store_fetchProcesses_Reject store_fetchProcesses_end_Reject timers_fetchProcesses
      poll_def setTimeout_def)

lemmas polling_defs = startPolling_def poll_def fetchProcesses_def fetchProcesses_begin_def
  fetchProcesses_end_def setPollingInterval_def stopPolling_def fireTimer_def runCallback_def
  invoke_def setTimeout_def or_default_def Let_def

theorem fetch_failure_keeps_snapshot_witness:
  "isPolling (store (startPolling (Resolve sampleSnapshot) (initialWorld [])))
   \<and> timers (fireTimer (Reject sampleError) (startPolling (Resolve sampleSnapshot) (initialWorld [])))
       = [(Poll 2000, 2000)]
   \<and> processes (store (fireTimer (Reject sampleError) (startPolling (Resolve sampleSnapshot) (initialWorld []))))
       = [sampleProcess 4242 ''node'' [3000] False]
   \<and> lastUpdated (store (fireTimer (Reject sampleError) (startPolling (Resolve sampleSnapshot) (initialWorld []))))
       = Some (Date ''2025-11-30T12:00:00Z'')
   \<and> error (store (fireTimer (Reject sampleError) (startPolling (Resolve sampleSnapshot) (initialWorld []))))
       = Some ''permission denied''
   \<and> isLoading (store (fireTimer (Reject sampleError) (startPolling (Resolve sampleSnapshot) (initialWorld []))))
       = False
   \<and> isPolling (store (fireTimer (Reject sampleError) (startPolling (Resolve sampleSnapshot) (initialWorld []))))"
proof -
  let ?w1 = "startPolling (Resolve sampleSnapshot) (initialWorld [])"
  let ?w = "?w1\<lparr>timers := []\<rparr>"
  have fire: "fireTimer (Reject sampleError) ?w1 = poll 2000 (Reject sampleError) ?w"
    by (simp add: fireTimer_def runCallback_def startPolling_def poll_def setTimeout_def
        isPolling_fetchProcesses timers_fetchProcesses initialWorld_def initialStore_def Let_def)
  have pol: "isPolling (store ?w)"
    by (simp add: startPolling_def poll_def setTimeout_def isPolling_fetchProcesses
        initialWorld_def initialStore_def Let_def)
  have snap: "processes (store ?w) = [sampleProcess 4242 ''node'' [3000] False]
      \<and> lastUpdated (store ?w) = Some (Date ''2025-11-30T12:00:00Z'') \<and> timers ?w = []"
    by (simp add: polling_defs initialWorld_def initialStore_def sampleSnapshot_def)
  show ?thesis
    using fetch_failure_keeps_snapshot [of sampleError ?w 2000 sampleSnapshot] pol snap
    unfolding fire
    by (simp add: poll_def setTimeout_def sampleError_def or_default_def)
qed

text \<open>
  C4 fails on the code. \<open>startPolling\<close> reads \<open>pollingInterval\<close> once, and the \<open>poll\<close>
  closure re-arms itself with that value. Polling is started with the initial interval 2000;
  then \<open>setPollingInterval 5000\<close> is called; the store holds 5000, but the cycle that runs
  next arms its successor with 2000, and so does the one after it.
\<close>

theorem setPollingInterval_ignored_by_running_poll:
  "isPolling (store (setPollingInterval 5000 (startPolling (Resolve sampleSnapshot) (initialWorld []))))
   \<and> pollingInterval (store (setPollingInterval 5000 (startPolling (Resolve sampleSnapshot) (initialWorld []))))
       = 5000
   \<and> timers (fireTimer (Resolve sampleSnapshot)
        (setPollingInterval 5000 (startPolling (Resolve sampleSnapshot) (initialWorld []))))
       = [(Poll 2000, 2000)]
   \<and> timers (fireTimer (Resolve sampleSnapshot) (fireTimer (Resolve sampleSnapshot)
        (setPollingInterval 5000 (startPolling (Resolve sampleSnapshot) (initialWorld [])))))
       = [(Poll 2000, 2000)]"
  by (simp add: polling_defs initialWorld_def initialStore_def sampleSnapshot_def)

lemma timers_poll_independent:
  "isPolling (store w) \<Longrightarrow> timers (poll c r (setPollingInterval ms w)) = timers w @ [(Poll c, c)]"
  by (simp add: poll_def setPollingInterval_def setTimeout_def timers_fetchProcesses)

section \<open>View pipeline: favorites first\<close>

lemma compare_fav:
  "hasFavoritePort favs a \<noteq> hasFavoritePort favs b \<Longrightarrow>
   compareProcesses rt so favs a b = (if hasFavoritePort favs a then - 1 else 1)"
  by (simp add: compareProcesses_def Let_def)

lemma set_insertBy: "set (insertBy cmp x ys) = insert x (set ys)"
  by (induction ys) auto

lemma mset_insertBy: "mset (insertBy cmp x ys) = add_mset x (mset ys)"
  by (induction ys) auto

lemma mset_sortBy: "mset (sortBy cmp xs) = mset xs"
  by (induction xs) (simp_all add: sortBy_def mset_insertBy)

lemma insertBy_favFirst:
  assumes cmp: "\<And>a b. fav a \<noteq> fav b \<Longrightarrow> cmp a b = (if fav a then - 1 else 1)"
    and srt: "sorted_wrt (\<lambda>a b. fav b \<longrightarrow> fav a) ys"
  shows "sorted_wrt (\<lambda>a b. fav b \<longrightarrow> fav a) (insertBy cmp x ys)"
  using srt
proof (induction ys)
  case Nil
  then show ?case by simp
next
  case (Cons y ys)
  show ?case
  proof (cases "cmp x y \<le> 0")
    case True
    have "fav x \<or> \<not> fav y"
    proof (rule ccontr)
      assume "\<not> (fav x \<or> \<not> fav y)"
      then have "cmp x y = 1" using cmp [of x y] by simp
      with True show False by simp
    qed
    with Cons.prems True show ?thesis by auto
  next
    case False
    have "fav x \<longrightarrow> fav y"
    proof (rule ccontr)
      assume "\<not> (fav x \<longrightarrow> fav y)"
      then have "cmp x y = - 1" using cmp [of x y] by simp
      with False show False by simp
    qed
    with Cons False show ?thesis by (auto simp: set_insertBy)
  qed
qed

lemma sortBy_favFirst:
  assumes cmp: "\<And>a b. fav a \<noteq> fav b \<Longrightarrow> cmp a b = (if fav a then - 1 else 1)"
  shows "sorted_wrt (\<lambda>a b. fav b \<longrightarrow> fav a) (sortBy cmp xs)"
proof (induction xs)
  case Nil
  then show ?case by (simp add: sortBy_def)
next
  case (Cons x xs)
  then show ?case
    using insertBy_favFirst [of fav cmp "sortBy cmp xs" x] cmp
    by (simp add: sortBy_def)
qed

lemma favFirst_split:
  "sorted_wrt (\<lambda>a b. fav b \<longrightarrow> fav a) xs \<Longrightarrow> xs = filter fav xs @ filter (\<lambda>a. \<not> fav a) xs"
proof (induction xs)
  case Nil
  then show ?case by simp
next
  case (Cons x xs)
  show ?case
  proof (cases "fav x")
    case True
    with Cons show ?thesis by simp
  next
    case False
    with Cons.prems have "\<forall>y\<in>set xs. \<not> fav y" by auto
    then have "filter fav xs = []" "filter (\<lambda>a. \<not> fav a) xs = xs" by (simp_all add: filter_empty_conv filter_id_conv)
    with False show ?thesis by simp
  qed
qed

text \<open>
  C5: for every process list, filter, sort field, direction and favorites list, and for
  whatever the runtime's \<open>toLowerCase\<close> and \<open>localeCompare\<close> return, the sorted list is its
  processes with a favorite port followed by its processes without one: no process
  without a favorite port stands before one with a favorite port. The sorted list is a
  rearrangement of the filtered list, so the favorited block is the same collection of
  processes for ascending and for descending order.
\<close>

theorem favorites_sort_first:
  "sortedProcesses rt ps fo so favs =
     filter (hasFavoritePort favs) (sortedProcesses rt ps fo so favs)
     @ filter (\<lambda>p. \<not> hasFavoritePort favs p) (sortedProcesses rt ps fo so favs)
   \<and> (\<forall>i j. i < j \<and> j < length (sortedProcesses rt ps fo so favs)
         \<and> hasFavoritePort favs (sortedProcesses rt ps fo so favs ! j)
         \<longrightarrow> hasFavoritePort favs (sortedProcesses rt ps fo so favs ! i))
   \<and> mset (sortedProcesses rt ps fo so favs) = mset (filteredProcesses rt ps fo)
   \<and> mset (filter (hasFavoritePort favs) (sortedProcesses rt ps fo (so\<lparr>direction := asc\<rparr>) favs))
       = mset (filter (hasFavoritePort favs) (sortedProcesses rt ps fo (so\<lparr>direction := desc\<rparr>) favs))"
proof -
  let ?out = "sortedProcesses rt ps fo so favs"
  have srt: "sorted_wrt (\<lambda>a b. hasFavoritePort favs b \<longrightarrow> hasFavoritePort favs a) ?out"
    unfolding sortedProcesses_def
    by (rule sortBy_favFirst) (rule compare_fav)
  have split: "?out = filter (hasFavoritePort favs) ?out @ filter (\<lambda>p. \<not> hasFavoritePort favs p) ?out"
    using srt by (rule favFirst_split)
  have idx: "\<forall>i j. i < j \<and> j < length ?out \<and> hasFavoritePort favs (?out ! j)
         \<longrightarrow> hasFavoritePort favs (?out ! i)"
    using srt by (auto simp: sorted_wrt_iff_nth_less)
  have perm: "mset (sortedProcesses rt ps fo so' favs) = mset (filteredProcesses rt ps fo)" for so'
    by (simp add: sortedProcesses_def mset_sortBy)
  have flip: "mset (filter (hasFavoritePort favs) (sortedProcesses rt ps fo (so\<lparr>direction := asc\<rparr>) favs))
       = mset (filter (hasFavoritePort favs) (sortedProcesses rt ps fo (so\<lparr>direction := desc\<rparr>) favs))"
    by (simp add: perm)
  from split idx perm flip show ?thesis by blast
qed

lemma sample_sorted:
  "map pid (sortedProcesses sampleRuntime sampleProcesses noFilter \<lparr>field = by_port, direction = asc\<rparr> [3000])
     = [100, 200, 300]
   \<and> map pid (sortedProcesses sampleRuntime sampleProcesses noFilter \<lparr>field = by_port, direction = desc\<rparr> [3000])
     = [100, 300, 200]
   \<and> map pid (sortedProcesses sampleRuntime sampleProcesses noFilter \<lparr>field = by_name, direction = desc\<rparr> [22])
     = [200, 100, 300]
   \<and> map pid (sortedProcesses sampleRuntime sampleProcesses (noFilter\<lparr>searchQuery := ''N''\<rparr>)
        \<lparr>field = by_cpu, direction = desc\<rparr> [8080]) = [300, 100]
   \<and> sortedProcesses sampleRuntime sampleProcesses (noFilter\<lparr>selectedProtocol := Some udp\<rparr>)
        \<lparr>field = by_port, direction = asc\<rparr> [3000] = []"
  by code_simp

theorem favorites_sort_first_witness:
  "map pid (sortedProcesses sampleRuntime sampleProcesses noFilter \<lparr>field = by_port, direction = asc\<rparr> [3000])
     = [100, 200, 300]
   \<and> map pid (sortedProcesses sampleRuntime sampleProcesses noFilter \<lparr>field = by_port, direction = desc\<rparr> [3000])
     = [100, 300, 200]
   \<and> map (hasFavoritePort [3000])
        (sortedProcesses sampleRuntime sampleProcesses noFilter \<lparr>field = by_port, direction = desc\<rparr> [3000])
     = [True, False, False]
   \<and> map pid (sortedProcesses sampleRuntime sampleProcesses noFilter \<lparr>field = by_name, direction = desc\<rparr> [22])
     = [200, 100, 300]
   \<and> map pid (sortedProcesses sampleRuntime sampleProcesses (noFilter\<lparr>searchQuery := ''N''\<rparr>)
        \<lparr>field = by_cpu, direction = desc\<rparr> [8080]) = [300, 100]
   \<and> sortedProcesses sampleRuntime sampleProcesses (noFilter\<lparr>selectedProtocol := Some udp\<rparr>)
        \<lparr>field = by_port, direction = asc\<rparr> [3000] = []"
proof -
  have ev: "sortedProcesses sampleRuntime sampleProcesses noFilter \<lparr>field = by_port, direction = desc\<rparr> [3000]
      = [sampleProcess 100 ''node'' [3000] False, sampleProcess 300 ''nginx'' [8080] False,
         sampleProcess 200 ''sshd'' [22] False]"
    by code_simp
  have fav: "hasFavoritePort [3000] (sampleProcess 100 ''node'' [3000] False)"
      "\<not> hasFavoritePort [3000] (sampleProcess 300 ''nginx'' [8080] False)"
      "\<not> hasFavoritePort [3000] (sampleProcess 200 ''sshd'' [22] False)"
    by (simp_all add: hasFavoritePort_def sampleProcess_def)
  show ?thesis
    using favorites_sort_first [of sampleRuntime sampleProcesses noFilter "\<lparr>field = by_port, direction = desc\<rparr>" "[3000]"]
      sample_sorted ev fav
    by simp
qed

section \<open>Port lookup\<close>

lemma digit_cases: "k < 10 \<Longrightarrow> k = 0 \<or> k = 1 \<or> k = 2 \<or> k = 3 \<or> k = 4 \<or> k = 5 \<or> k = 6 \<or> k = 7 \<or> k = 8 \<or> k = (9::nat)"
  by arith

lemma digit_char:
  assumes "k < 10"
  shows "isDigit (''0123456789'' ! k)" and "digitValue (''0123456789'' ! k) = k"
    and "\<not> isWhiteSpace (''0123456789'' ! k)" and "''0123456789'' ! k \<noteq> CHR ''-''"
    and "''0123456789'' ! k \<noteq> CHR ''+''"
  using digit_cases [OF assms] by (auto simp: isDigit_def digitValue_def isWhiteSpace_def)

lemma digits_nonempty: "digits n \<noteq> []"
  by (subst digits.simps) simp

lemma digits_all: "c \<in> set (digits n) \<Longrightarrow> isDigit c"
proof (induction n rule: digits.induct)
  case (1 n)
  show ?case
  proof (cases "n < 10")
    case True
    with "1.prems" show ?thesis by (subst (asm) digits.simps) (simp add: digit_char)
  next
    case False
    with "1.prems" "1.IH" show ?thesis
      by (subst (asm) digits.simps) (auto simp: digit_char)
  qed
qed

lemma digits_value: "foldl (\<lambda>a c. 10 * a + digitValue c) 0 (digits n) = n"
proof (induction n rule: digits.induct)
  case (1 n)
  show ?case
  proof (cases "n < 10")
    case True
    then show ?thesis by (subst digits.simps) (simp add: digit_char)
  next
    case False
    with "1.IH" show ?thesis
      by (subst digits.simps) (simp add: digit_char)
  qed
qed

lemma hd_digits: "\<exists>c cs. digits n = c # cs \<and> isDigit c \<and> \<not> isWhiteSpace c \<and> c \<noteq> CHR ''-'' \<and> c \<noteq> CHR ''+''"
proof (induction n rule: digits.induct)
  case (1 n)
  show ?case
  proof (cases "n < 10")
    case True
    then show ?thesis by (subst digits.simps) (simp add: digit_char)
  next
    case False
    with "1.IH" show ?thesis
      by (subst digits.simps) auto
  qed
qed

lemma takeWhile_digits: "takeWhile isDigit (digits n) = digits n"
  by (simp add: digits_all)

lemma parseInt_toString: "parseInt (toString n) = Some n"
proof (cases "n < 0")
  case True
  have ws: "\<not> isWhiteSpace CHR ''-''" by (simp add: isWhiteSpace_def)
  from True show ?thesis
    by (simp add: toString_def parseInt_def ws takeWhile_digits digits_nonempty digits_value)
next
  case False
  obtain c cs where d: "digits (nat n) = c # cs" "\<not> isWhiteSpace c" "c \<noteq> CHR ''-''" "c \<noteq> CHR ''+''"
    using hd_digits [of "nat n"] by blast
  have "takeWhile isDigit (c # cs) = c # cs" "foldl (\<lambda>a c. 10 * a + digitValue c) 0 (c # cs) = nat n"
    using takeWhile_digits [of "nat n"] digits_value [of "nat n"] by (simp_all only: d(1))
  with False d show ?thesis
    by (simp add: toString_def parseInt_def Let_def)
qed

lemma handleSearch_rejects:
  assumes "parseInt (ps_port d) = None \<or> (\<exists>n. parseInt (ps_port d) = Some n \<and> (n < 1 \<or> 65535 < n))"
  shows "handleSearch r (d, w) = (d\<lparr>ps_error := Some ''Please enter a valid port number (1-65535)''\<rparr>, w)"
  using assms by (auto simp: handleSearch_def)

lemma invoked_findPort: "invoked (snd (findPort n r w)) = invoked w @ [find_port n]"
  by (cases r) (simp_all add: findPort_def invoke_def)

lemma handleSearch_accepts:
  assumes "parseInt (ps_port d) = Some n" "1 \<le> n" "n \<le> 65535"
  shows "invoked (snd (handleSearch r (d, w))) = invoked w @ [find_port n]"
proof -
  obtain res w' where f: "findPort n r w = (res, w')" by (cases "findPort n r w")
  then have "invoked w' = invoked w @ [find_port n]"
    using invoked_findPort [of n r w] by simp
  with assms f show ?thesis
    by (cases res) (simp_all add: handleSearch_def Let_def)
qed

text \<open>
  C9: a lookup whose input does not parse to a number, or parses to a number below 1 or
  above 65535, ends in \<open>handleSearch\<close> with the validation message; the state outside the
  dialog is untouched, so no \<open>find_port\<close> request is sent. In particular this holds for
  the decimal text of every integer outside 1 to 65535 (70000, 0, negative numbers). For the
  text of an integer inside the range exactly one \<open>find_port\<close> request with that number
  is sent.
\<close>

theorem port_lookup_validated:
  "((parseInt (ps_port d) = None \<or> (\<exists>n. parseInt (ps_port d) = Some n \<and> (n < 1 \<or> 65535 < n))) \<longrightarrow>
      handleSearch r (d, w) = (d\<lparr>ps_error := Some ''Please enter a valid port number (1-65535)''\<rparr>, w)
      \<and> invoked (snd (handleSearch r (d, w))) = invoked w)
   \<and> (n < 1 \<or> 65535 < n \<longrightarrow>
      handleSearch r (d\<lparr>ps_port := toString n\<rparr>, w) =
        (d\<lparr>ps_port := toString n, ps_error := Some ''Please enter a valid port number (1-65535)''\<rparr>, w)
      \<and> invoked (snd (handleSearch r (d\<lparr>ps_port := toString n\<rparr>, w))) = invoked w)
   \<and> (1 \<le> n \<and> n \<le> 65535 \<longrightarrow>
      invoked (snd (handleSearch r (d\<lparr>ps_port := toString n\<rparr>, w))) = invoked w @ [find_port n])"
proof (intro conjI impI)
  assume a: "parseInt (ps_port d) = None \<or> (\<exists>n. parseInt (ps_port d) = Some n \<and> (n < 1 \<or> 65535 < n))"
  then show "handleSearch r (d, w) = (d\<lparr>ps_error := Some ''Please enter a valid port number (1-65535)''\<rparr>, w)"
    by (rule handleSearch_rejects)
  then show "invoked (snd (handleSearch r (d, w))) = invoked w" by simp
next
  assume a: "n < 1 \<or> 65535 < n"
  let ?d = "d\<lparr>ps_port := toString n\<rparr>"
  have "parseInt (ps_port ?d) = None \<or> (\<exists>m. parseInt (ps_port ?d) = Some m \<and> (m < 1 \<or> 65535 < m))"
    using a by (simp add: parseInt_toString)
  then have "handleSearch r (?d, w) = (?d\<lparr>ps_error := Some ''Please enter a valid port number (1-65535)''\<rparr>, w)"
    by (rule handleSearch_rejects)
  then show "handleSearch r (?d, w) =
        (d\<lparr>ps_port := toString n, ps_error := Some ''Please enter a valid port number (1-65535)''\<rparr>, w)"
    by simp
  then show "invoked (snd (handleSearch r (?d, w))) = invoked w" by simp
next
  assume "1 \<le> n \<and> n \<le> 65535"
  then show "invoked (snd (handleSearch r (d\<lparr>ps_port := toString n\<rparr>, w))) = invoked w @ [find_port n]"
    by (intro handleSearch_accepts) (simp_all add: parseInt_toString)
qed

lemma toString_samples: "toString 70000 = ''70000''" "toString 0 = ''0''" "toString 3000 = ''3000''"
  by (simp_all add: toString_def digits.simps)

theorem port_lookup_validated_witness:
  "parseInt ''70000'' = Some 70000
   \<and> handleSearch (Resolve [sampleProcess 4242 ''node'' [3000] False]) (onChangePort ''70000'' emptyDialog, sampleWorld)
       = (\<lparr>ps_port = ''70000'', ps_results = [], ps_isSearching = False,
           ps_error = Some ''Please enter a valid port number (1-65535)''\<rparr>, sampleWorld)
   \<and> invoked (snd (handleSearch (Resolve []) (onChangePort ''0'' emptyDialog, sampleWorld))) = []
   \<and> parseInt '''' = None
   \<and> invoked (snd (handleSearch (Resolve []) (emptyDialog, sampleWorld))) = []
   \<and> invoked (snd (handleSearch (Resolve [sampleProcess 4242 ''node'' [3000] False])
        (onChangePort ''3000'' emptyDialog, sampleWorld))) = [find_port 3000]"
proof -
  let ?r = "Resolve [sampleProcess 4242 ''node'' [3000] False]"
  have p: "parseInt ''70000'' = Some 70000" "parseInt '''' = None"
    using parseInt_toString [of 70000] by (simp_all add: toString_samples parseInt_def)
  have d: "onChangePort ''70000'' emptyDialog = emptyDialog\<lparr>ps_port := toString 70000\<rparr>"
      "onChangePort ''0'' emptyDialog = emptyDialog\<lparr>ps_port := toString 0\<rparr>"
      "onChangePort ''3000'' emptyDialog = emptyDialog\<lparr>ps_port := toString 3000\<rparr>"
    by (simp_all add: toString_samples onChangePort_def isDigit_def)
  have w0: "invoked sampleWorld = []"
    by (simp add: sampleWorld_def initialWorld_def)
  have big: "(70000::int) < 1 \<or> 65535 < (70000::int)" and zero: "(0::int) < 1 \<or> 65535 < (0::int)"
    and ok: "(1::int) \<le> 3000 \<and> (3000::int) \<le> 65535"
    by simp_all
  have e: "parseInt (ps_port emptyDialog) = None \<or>
      (\<exists>n. parseInt (ps_port emptyDialog) = Some n \<and> (n < 1 \<or> 65535 < n))"
    using p(2) by (simp add: emptyDialog_def)
  have c1: "handleSearch ?r (emptyDialog\<lparr>ps_port := toString 70000\<rparr>, sampleWorld) =
      (emptyDialog\<lparr>ps_port := toString 70000,
         ps_error := Some ''Please enter a valid port number (1-65535)''\<rparr>, sampleWorld)"
    using port_lookup_validated [of emptyDialog ?r sampleWorld 70000] big by blast
  have c2: "invoked (snd (handleSearch (Resolve []) (emptyDialog\<lparr>ps_port := toString 0\<rparr>, sampleWorld)))
      = invoked sampleWorld"
    using port_lookup_validated [of emptyDialog "Resolve []" sampleWorld 0] zero by blast
  have c3: "invoked (snd (handleSearch (Resolve []) (emptyDialog, sampleWorld))) = invoked sampleWorld"
    using port_lookup_validated [of emptyDialog "Resolve []" sampleWorld 0] e by blast
  have c4: "invoked (snd (handleSearch ?r (emptyDialog\<lparr>ps_port := toString 3000\<rparr>, sampleWorld)))
      = invoked sampleWorld @ [find_port 3000]"
    using port_lookup_validated [of emptyDialog ?r sampleWorld 3000] ok by blast
  have rec: "emptyDialog\<lparr>ps_port := toString 70000,
         ps_error := Some ''Please enter a valid port number (1-65535)''\<rparr> =
       \<lparr>ps_port = ''70000'', ps_results = [], ps_isSearching = False,
           ps_error = Some ''Please enter a valid port number (1-65535)''\<rparr>"
    by (simp add: emptyDialog_def toString_samples)
  show ?thesis
    unfolding d c1 c2 c3 c4 rec w0 p by simp
qed

section \<open>Loading the favorites\<close>

lemma length_skipWs: "length (skipWs cs) \<le> length cs"
  by (simp add: skipWs_def length_dropWhile_le)

lemma skipWs_Cons: "skipWs cs = c # rest \<Longrightarrow> length rest < length cs"
  using length_skipWs [of cs] by simp

lemma parseChars_fuel: "parseChars cs acc \<noteq> OutOfFuel"
  by (induction cs acc rule: parseChars.induct) (auto split: list.splits option.splits)

lemma parseChars_consumes: "parseChars cs acc = Ok k r \<Longrightarrow> length r < length cs"
proof (induction cs acc rule: parseChars.induct)
  case (1 acc)
  then show ?case by simp
next
  case (2 c cs acc)
  show ?case
  proof (cases "c = CHR 0x22")
    case True
    with "2.prems" show ?thesis by simp
  next
    case q: False
    show ?thesis
    proof (cases "c = CHR 0x5C")
      case False
      with q "2.prems" have "parseChars cs (of_char c # acc) = Ok k r" "\<not> (of_char c :: nat) < 32"
        by (simp_all split: if_splits)
      with "2.IH"(3) [OF q False] show ?thesis by simp
    next
      case True
      with q "2.prems" obtain e es where cs: "cs = e # es"
        by (cases cs) simp_all
      show ?thesis
      proof (cases "e = CHR ''u''")
        case u: True
        with q True cs "2.prems" obtain v where
          h: "hex4 (take 4 es) = Some v" and p: "parseChars (drop 4 es) (v # acc) = Ok k r"
          by (cases "hex4 (take 4 es)") simp_all
        from "2.IH"(1) [OF q True cs u h p] have "length r < length (drop 4 es)" .
        then show ?thesis by (simp add: cs)
      next
        case nu: False
        with q True cs "2.prems" obtain v where
          h: "escapeValue e = Some v" and p: "parseChars es (v # acc) = Ok k r"
          by (cases "escapeValue e") simp_all
        from "2.IH"(2) [OF q True cs nu h p] have "length r < length es" .
        then show ?thesis by (simp add: cs)
      qed
    qed
  qed
qed

lemma parseLiteral_fuel: "parseLiteral cs \<noteq> OutOfFuel"
  by (simp add: parseLiteral_def)

lemma startsWith_length: "startsWith cs q \<Longrightarrow> length q \<le> length cs"
  by (induction cs q rule: startsWith.induct) auto

lemma parseLiteral_consumes: "parseLiteral cs = Ok v r \<Longrightarrow> length r < length cs"
  by (auto simp: parseLiteral_def split: if_splits dest: startsWith_length)

lemma parseFraction_length: "parseFraction cs = Some (x, r) \<Longrightarrow> length r \<le> length cs"
  by (auto simp: parseFraction_def Let_def split: list.splits if_splits
      intro: le_trans [OF length_dropWhile_le])

lemma parseExponent_length: "parseExponent cs = Some (x, r) \<Longrightarrow> length r \<le> length cs"
  by (auto simp: parseExponent_def Let_def split: list.splits if_splits
      intro: le_trans [OF length_dropWhile_le] le_SucI)

lemma parseNumber_fuel: "parseNumber cs \<noteq> OutOfFuel"
  by (simp add: parseNumber_def Let_def split: option.splits prod.splits)

lemma dropWhile_shorter: "takeWhile P xs \<noteq> [] \<Longrightarrow> length (dropWhile P xs) < length xs"
  by (cases xs) (auto simp: le_imp_less_Suc length_dropWhile_le split: if_splits)

lemma parseNumber_consumes:
  assumes "parseNumber cs = Ok v r"
  shows "length r < length cs"
proof -
  define cs1 where "cs1 = (if (case cs of [] \<Rightarrow> False | c # r \<Rightarrow> c = CHR ''-'') then tl cs else cs)"
  have l1: "length cs1 \<le> length cs" by (simp add: cs1_def)
  from assms have ne: "takeWhile isDigit cs1 \<noteq> []"
    by (auto simp: parseNumber_def Let_def cs1_def split: if_splits)
  from assms obtain fr cs2 ex where
    f: "parseFraction (dropWhile isDigit cs1) = Some (fr, cs2)" and e: "parseExponent cs2 = Some (ex, r)"
    by (auto simp: parseNumber_def Let_def cs1_def split: if_splits option.splits prod.splits)
  have "length r \<le> length cs2" using e by (rule parseExponent_length)
  also have "\<dots> \<le> length (dropWhile isDigit cs1)" using f by (rule parseFraction_length)
  also have "\<dots> < length cs1" using ne by (rule dropWhile_shorter)
  finally show ?thesis using l1 by simp
qed

lemma consumes_mono: "consumes res cs \<Longrightarrow> length cs \<le> length cs' \<Longrightarrow> consumes res cs'"
  by (cases res) (simp_all add: consumes_def)

lemma consumes_SyntaxErr: "consumes SyntaxErr cs"
  by (simp add: consumes_def)

lemma consumes_Ok: "consumes (Ok v r) cs = (length r < length cs)"
  by (simp add: consumes_def)

lemma consumes_parseChars: "consumes (parseChars cs acc) cs"
  using parseChars_fuel [of cs acc] parseChars_consumes [of cs acc]
  by (cases "parseChars cs acc") (simp_all add: consumes_def)

lemma consumes_parseNumber: "consumes (parseNumber cs) cs"
  using parseNumber_fuel [of cs] parseNumber_consumes [of cs]
  by (cases "parseNumber cs") (simp_all add: consumes_def)

lemma consumes_parseLiteral: "consumes (parseLiteral cs) cs"
  using parseLiteral_fuel [of cs] parseLiteral_consumes [of cs]
  by (cases "parseLiteral cs") (simp_all add: consumes_def)

lemma parseValue_step:
  assumes E: "\<And>cs acc. 2 * length cs + 2 \<le> n \<Longrightarrow> consumes (parseElements n cs acc) cs"
    and M: "\<And>cs acc. 2 * length cs + 2 \<le> n \<Longrightarrow> consumes (parseMembers n cs acc) cs"
    and n: "2 * length cs + 1 \<le> Suc n"
  shows "consumes (parseValue (Suc n) cs) cs"
proof (cases "skipWs cs")
  case Nil
  then show ?thesis by (simp add: consumes_SyntaxErr)
next
  case (Cons c rest)
  then have lr: "length rest < length cs" by (rule skipWs_Cons)
  with n have fuel: "2 * length rest + 2 \<le> n" by simp
  consider (arr) "c = CHR ''[''" | (obj) "c \<noteq> CHR ''[''" "c = CHR ''{''"
    | (str) "c \<noteq> CHR ''[''" "c \<noteq> CHR ''{''" "c = CHR 0x22"
    | (num) "c \<noteq> CHR ''[''" "c \<noteq> CHR ''{''" "c \<noteq> CHR 0x22" "c = CHR ''-'' \<or> isDigit c"
    | (lit) "c \<noteq> CHR ''[''" "c \<noteq> CHR ''{''" "c \<noteq> CHR 0x22" "\<not> (c = CHR ''-'' \<or> isDigit c)"
    by blast
  then show ?thesis
  proof cases
    case arr
    show ?thesis
    proof (cases "skipWs rest")
      case Nil
      with Cons arr show ?thesis by (simp add: consumes_SyntaxErr)
    next
      case inner: (Cons d rest1)
      then have "length rest1 < length rest" by (rule skipWs_Cons)
      moreover have "consumes (parseElements n rest []) cs"
        using E [OF fuel, of "[]"] lr consumes_mono [of "parseElements n rest []" rest cs] by simp
      ultimately show ?thesis using Cons arr inner lr by (simp add: consumes_Ok)
    qed
  next
    case obj
    show ?thesis
    proof (cases "skipWs rest")
      case Nil
      with Cons obj show ?thesis by (simp add: consumes_SyntaxErr)
    next
      case inner: (Cons d rest1)
      then have "length rest1 < length rest" by (rule skipWs_Cons)
      moreover have "consumes (parseMembers n rest []) cs"
        using M [OF fuel, of "[]"] lr consumes_mono [of "parseMembers n rest []" rest cs] by simp
      ultimately show ?thesis using Cons obj inner lr by (simp add: consumes_Ok)
    qed
  next
    case str
    have "consumes (parseChars rest []) rest" by (rule consumes_parseChars)
    with Cons str lr show ?thesis
      by (cases "parseChars rest []") (simp_all add: consumes_def)
  next
    case num
    have "consumes (parseNumber (c # rest)) (c # rest)" by (rule consumes_parseNumber)
    then have "consumes (parseNumber (c # rest)) cs"
      using lr consumes_mono [of "parseNumber (c # rest)" "c # rest" cs] by simp
    with Cons num show ?thesis by auto
  next
    case lit
    have "consumes (parseLiteral (c # rest)) (c # rest)" by (rule consumes_parseLiteral)
    then have "consumes (parseLiteral (c # rest)) cs"
      using lr consumes_mono [of "parseLiteral (c # rest)" "c # rest" cs] by simp
    with Cons lit show ?thesis by auto
  qed
qed

lemma parseElements_step:
  assumes V: "\<And>cs. 2 * length cs + 1 \<le> n \<Longrightarrow> consumes (parseValue n cs) cs"
    and E: "\<And>cs acc. 2 * length cs + 2 \<le> n \<Longrightarrow> consumes (parseElements n cs acc) cs"
    and n: "2 * length cs + 2 \<le> Suc n"
  shows "consumes (parseElements (Suc n) cs acc) cs"
proof -
  from n have "2 * length cs + 1 \<le> n" by simp
  then have v: "consumes (parseValue n cs) cs" by (rule V)
  show ?thesis
  proof (cases "parseValue n cs")
    case (Ok x rest)
    with v have lr: "length rest < length cs" by (simp add: consumes_Ok)
    show ?thesis
    proof (cases "skipWs rest")
      case Nil
      with Ok show ?thesis by (simp add: consumes_SyntaxErr)
    next
      case (Cons d rest1)
      then have l1: "length rest1 < length rest" by (rule skipWs_Cons)
      with lr n have "2 * length rest1 + 2 \<le> n" by simp
      then have "consumes (parseElements n rest1 (x # acc)) rest1" by (rule E)
      then have "consumes (parseElements n rest1 (x # acc)) cs"
        using l1 lr consumes_mono [of "parseElements n rest1 (x # acc)" rest1 cs] by simp
      with Ok Cons l1 lr show ?thesis by (simp add: consumes_Ok consumes_SyntaxErr)
    qed
  next
    case SyntaxErr
    then show ?thesis by (simp add: consumes_SyntaxErr)
  next
    case OutOfFuel
    with v show ?thesis by (simp add: consumes_def)
  qed
qed

lemma parseMembers_step:
  assumes V: "\<And>cs. 2 * length cs + 1 \<le> n \<Longrightarrow> consumes (parseValue n cs) cs"
    and M: "\<And>cs acc. 2 * length cs + 2 \<le> n \<Longrightarrow> consumes (parseMembers n cs acc) cs"
    and n: "2 * length cs + 2 \<le> Suc n"
  shows "consumes (parseMembers (Suc n) cs acc) cs"
proof (cases "skipWs cs")
  case Nil
  then show ?thesis by (simp add: consumes_SyntaxErr)
next
  case (Cons q rest)
  then have lr: "length rest < length cs" by (rule skipWs_Cons)
  show ?thesis
  proof (cases "q = CHR 0x22")
    case False
    with Cons show ?thesis by (simp add: consumes_SyntaxErr)
  next
    case q: True
    have pc: "consumes (parseChars rest []) rest" by (rule consumes_parseChars)
    show ?thesis
    proof (cases "parseChars rest []")
      case (Ok k rest1)
      with pc have l1: "length rest1 < length rest" by (simp add: consumes_Ok)
      show ?thesis
      proof (cases "skipWs rest1")
        case Nil
        with Cons q Ok show ?thesis by (simp add: consumes_SyntaxErr)
      next
        case c2: (Cons c rest2)
        then have l2: "length rest2 < length rest1" by (rule skipWs_Cons)
        show ?thesis
        proof (cases "c = CHR '':''")
          case False
          with Cons q Ok c2 show ?thesis by (simp add: consumes_SyntaxErr)
        next
          case colon: True
          from l2 l1 lr n have "2 * length rest2 + 1 \<le> n" by simp
          then have v: "consumes (parseValue n rest2) rest2" by (rule V)
          show ?thesis
          proof (cases "parseValue n rest2")
            case v3: (Ok x rest3)
            with v have l3: "length rest3 < length rest2" by (simp add: consumes_Ok)
            show ?thesis
            proof (cases "skipWs rest3")
              case Nil
              with Cons q Ok c2 colon v3 show ?thesis by (simp add: consumes_SyntaxErr)
            next
              case c4: (Cons d rest4)
              then have l4: "length rest4 < length rest3" by (rule skipWs_Cons)
              with l3 l2 l1 lr n have "2 * length rest4 + 2 \<le> n" by simp
              then have "consumes (parseMembers n rest4 ((k, x) # acc)) rest4" by (rule M)
              then have "consumes (parseMembers n rest4 ((k, x) # acc)) cs"
                using l4 l3 l2 l1 lr consumes_mono [of "parseMembers n rest4 ((k, x) # acc)" rest4 cs] by simp
              with Cons q Ok c2 colon v3 c4 l4 l3 l2 l1 lr show ?thesis
                by (simp add: consumes_Ok consumes_SyntaxErr)
            qed
          next
            case SyntaxErr
            with Cons q Ok c2 colon show ?thesis by (simp add: consumes_SyntaxErr)
          next
            case OutOfFuel
            with v show ?thesis by (simp add: consumes_def)
          qed
        qed
      qed
    next
      case SyntaxErr
      with Cons q show ?thesis by (simp add: consumes_SyntaxErr)
    next
      case OutOfFuel
      with pc show ?thesis by (simp add: consumes_def)
    qed
  qed
qed

lemma parse_fuel:
  "(\<forall>cs. 2 * length cs + 1 \<le> n \<longrightarrow> consumes (parseValue n cs) cs)
   \<and> (\<forall>cs acc. 2 * length cs + 2 \<le> n \<longrightarrow> consumes (parseElements n cs acc) cs)
   \<and> (\<forall>cs acc. 2 * length cs + 2 \<le> n \<longrightarrow> consumes (parseMembers n cs acc) cs)"
proof (induction n)
  case 0
  then show ?case by simp
next
  case (Suc n)
  then have V: "\<And>cs. 2 * length cs + 1 \<le> n \<Longrightarrow> consumes (parseValue n cs) cs"
    and E: "\<And>cs acc. 2 * length cs + 2 \<le> n \<Longrightarrow> consumes (parseElements n cs acc) cs"
    and M: "\<And>cs acc. 2 * length cs + 2 \<le> n \<Longrightarrow> consumes (parseMembers n cs acc) cs"
    by blast+
  show ?case
    using parseValue_step [OF E M] parseElements_step [OF V E] parseMembers_step [OF V M]
    by blast
qed

lemma JSON_parse_fuel: "JSON_parse s \<noteq> OutOfFuel"
proof -
  have "consumes (parseValue (2 * length s + 2) s) s"
    using parse_fuel [of "2 * length s + 2"] by simp
  then show ?thesis
    by (cases "parseValue (2 * length s + 2) s") (simp_all add: JSON_parse_def consumes_def)
qed

lemma createStore_determined: "createStore ls \<noteq> Undetermined"
  using JSON_parse_fuel [of "storedFavorites ls"]
  by (cases "JSON_parse (storedFavorites ls)") (simp_all add: createStore_def split: option.splits)

lemmas json_eval = skipWs_def isJsonWs_def isDigit_def digitValue_def digitsValue_def parseLiteral_def
  parseNumber_def parseFraction_def parseExponent_def scale10_def Let_def

lemma fuel5: "5 \<le> n \<Longrightarrow> \<exists>m. n = Suc (Suc (Suc (Suc (Suc m))))"
  by (rule exI [of _ "n - 5"]) simp

lemma parseValue_samples:
  assumes "5 \<le> n"
  shows "parseValue n ''[]'' = Ok (JArray []) []"
    and "parseValue n ''not json'' = SyntaxErr"
    and "parseValue n ''{oops'' = SyntaxErr"
    and "parseValue n ''[3000,'' = SyntaxErr"
    and "parseValue n ''[3000,8080]'' = Ok (JArray [JNumber 3000, JNumber 8080]) []"
proof -
  from assms obtain m where n: "n = Suc (Suc (Suc (Suc (Suc m))))"
    using fuel5 by blast
  show "parseValue n ''[]'' = Ok (JArray []) []"
    unfolding n by (simp add: json_eval)
  show "parseValue n ''not json'' = SyntaxErr"
    unfolding n by (simp add: json_eval)
  show "parseValue n ''{oops'' = SyntaxErr"
    unfolding n by (simp add: json_eval)
  show "parseValue n ''[3000,'' = SyntaxErr"
    unfolding n by (simp add: json_eval)
  show "parseValue n ''[3000,8080]'' = Ok (JArray [JNumber 3000, JNumber 8080]) []"
    unfolding n by (simp add: json_eval)
qed

lemma JSON_parse_samples:
  "JSON_parse ''[]'' = Ok (JArray []) []"
  "JSON_parse ''not json'' = SyntaxErr"
  "JSON_parse ''[3000,'' = SyntaxErr"
  "JSON_parse ''{oops'' = SyntaxErr"
  "JSON_parse ''[3000,8080]'' = Ok (JArray [JNumber 3000, JNumber 8080]) []"
  by (simp_all add: JSON_parse_def parseValue_samples skipWs_def)

lemma asPorts_samples:
  "asPorts (JArray []) = Some []"
  "asPorts (JArray [JNumber 3000, JNumber 8080]) = Some [3000, 8080]"
  by (simp_all add: asPorts_def asInt_def)

text \<open>
  C2, as stated, fails: with a stored text that is not JSON, \<open>JSON.parse\<close> throws while
  the store is created, and the store does not come into being. Two such texts: one that
  is no JSON at all, and a list that was cut off.
\<close>

theorem corrupt_favorites_throw:
  "getItem ''favoritePorts'' [(''favoritePorts'', ''not json'')] = Some ''not json''
   \<and> JSON_parse ''not json'' = SyntaxErr
   \<and> createStore [(''favoritePorts'', ''not json'')] = Thrown
   \<and> createStore [(''favoritePorts'', ''[3000,'')] = Thrown"
  by (simp add: createStore_def storedFavorites_def getItem_def JSON_parse_samples)

text \<open>
  C2, amended: when nothing is stored under the key, or the empty string is, the store is
  created with the empty favorites list. Corrupt data is not replaced by a default: when
  the stored text is not empty and not JSON, \<open>JSON.parse\<close> throws a \<open>SyntaxError\<close> during
  creation, which nothing catches. Creation throws exactly when the text handed to
  \<open>JSON.parse\<close> is not JSON.
\<close>

theorem absent_favorites_default_corrupt_throw:
  "(getItem ''favoritePorts'' ls = None \<or> getItem ''favoritePorts'' ls = Some [] \<longrightarrow>
      createStore ls = Created (initialStore []))
   \<and> (\<forall>s. getItem ''favoritePorts'' ls = Some s \<and> s \<noteq> [] \<and> JSON_parse s = SyntaxErr \<longrightarrow>
      createStore ls = Thrown)
   \<and> (createStore ls = Thrown \<longleftrightarrow> JSON_parse (storedFavorites ls) = SyntaxErr)
   \<and> createStore ls \<noteq> Undetermined"
proof (intro conjI impI allI)
  assume "getItem ''favoritePorts'' ls = None \<or> getItem ''favoritePorts'' ls = Some []"
  then have "storedFavorites ls = ''[]''"
    by (auto simp: storedFavorites_def)
  then show "createStore ls = Created (initialStore [])"
    by (simp add: createStore_def JSON_parse_samples asPorts_samples)
next
  fix s
  assume "getItem ''favoritePorts'' ls = Some s \<and> s \<noteq> [] \<and> JSON_parse s = SyntaxErr"
  then show "createStore ls = Thrown"
    by (simp add: createStore_def storedFavorites_def)
next
  show "createStore ls = Thrown \<longleftrightarrow> JSON_parse (storedFavorites ls) = SyntaxErr"
    by (cases "JSON_parse (storedFavorites ls)") (simp_all add: createStore_def split: option.splits)
next
  show "createStore ls \<noteq> Undetermined"
    by (rule createStore_determined)
qed

theorem absent_favorites_default_corrupt_throw_witness:
  "getItem ''favoritePorts'' [] = None
   \<and> createStore [] = Created (initialStore [])
   \<and> getItem ''favoritePorts'' [(''favoritePorts'', '''')] = Some []
   \<and> createStore [(''favoritePorts'', '''')] = Created (initialStore [])
   \<and> JSON_parse ''{oops'' = SyntaxErr
   \<and> createStore [(''theme'', ''dark''), (''favoritePorts'', ''{oops'')] = Thrown
   \<and> createStore [(''favoritePorts'', ''[3000,8080]'')] = Created (initialStore [3000, 8080])"
proof -
  have g: "getItem ''favoritePorts'' [] = None"
      "getItem ''favoritePorts'' [(''favoritePorts'', '''')] = Some []"
      "getItem ''favoritePorts'' [(''theme'', ''dark''), (''favoritePorts'', ''{oops'')] = Some ''{oops''"
    by (simp_all add: getItem_def)
  have p: "JSON_parse ''{oops'' = SyntaxErr"
    by (rule JSON_parse_samples)
  have ok: "createStore [(''favoritePorts'', ''[3000,8080]'')] = Created (initialStore [3000, 8080])"
    by (simp add: createStore_def storedFavorites_def getItem_def JSON_parse_samples asPorts_samples)
  show ?thesis
    using absent_favorites_default_corrupt_throw [of "[]"] absent_favorites_default_corrupt_throw [of "[(''favoritePorts'', '''')]"]
      absent_favorites_default_corrupt_throw [of "[(''theme'', ''dark''), (''favoritePorts'', ''{oops'')]"] g p ok
    by simp
qed

end
